theory Spec2Isabelle
  imports Main "HOL-Library.Sublist"
begin

section \<open>Go strings\<close>

text \<open>
  A Go string is a sequence of bytes; it is modelled as \<open>string\<close> (a list of 8-bit
  characters). The functions of package \<open>strings\<close> that the program calls are written
  out with Go's argument order and Go's results (an index of \<open>-1\<close> for "not found").
\<close>

definition HasPrefix :: "string \<Rightarrow> string \<Rightarrow> bool" where
  "HasPrefix s p = prefix p s"

fun Index :: "string \<Rightarrow> string \<Rightarrow> int" where
  "Index [] sub = (if sub = [] then 0 else -1)"
| "Index (c # cs) sub =
     (if prefix sub (c # cs) then 0
      else (let i = Index cs sub in if i = -1 then -1 else i + 1))"

fun LastIndex :: "string \<Rightarrow> string \<Rightarrow> int" where
  "LastIndex [] sub = (if sub = [] then 0 else -1)"
| "LastIndex (c # cs) sub =
     (let i = LastIndex cs sub in
      if i \<noteq> -1 then i + 1 else if prefix sub (c # cs) then 0 else -1)"

definition Contains :: "string \<Rightarrow> string \<Rightarrow> bool" where
  "Contains s sub = (Index s sub \<ge> 0)"

text \<open>
  \<open>strings.ReplaceAll\<close> replaces the non-overlapping occurrences of \<open>old\<close>, scanning
  from the left. With an empty \<open>old\<close> Go inserts \<open>new\<close> before every character and at
  the end.
\<close>

function ReplaceAll :: "string \<Rightarrow> string \<Rightarrow> string \<Rightarrow> string" where
  "ReplaceAll [] old new = (if old = [] then new else [])"
| "ReplaceAll (c # cs) old new =
     (if old = [] then new @ c # ReplaceAll cs old new
      else if prefix old (c # cs) then new @ ReplaceAll (drop (length old) (c # cs)) old new
      else c # ReplaceAll cs old new)"
  by pat_completeness auto
termination
  by (relation "measure (\<lambda>(s, old, new). length s)") (auto simp: neq_Nil_conv)

text \<open>Slicing \<open>s[:i]\<close> and \<open>s[i:]\<close> at an index that \<open>Index\<close> or \<open>LastIndex\<close> returned.\<close>

definition slice_to :: "string \<Rightarrow> int \<Rightarrow> string" where
  "slice_to s i = take (nat i) s"

definition slice_from :: "string \<Rightarrow> int \<Rightarrow> string" where
  "slice_from s i = drop (nat i) s"

section \<open>Image references (cmd/pull.go)\<close>

text \<open>\<open>parseImageRef\<close> returns \<open>(name, tag, registry)\<close>.\<close>

definition parseImageRef :: "string \<Rightarrow> string \<times> string \<times> string" where
  "parseImageRef imageRef0 =
     (let registry0 = ''docker.io'';
          tag0 = ''latest'';
          idx = Index imageRef0 ''/'';
          potentialRegistry = slice_to imageRef0 idx;
          (registry, imageRef) =
             (if idx \<noteq> -1 \<and>
                 (Contains potentialRegistry ''.'' \<or> Contains potentialRegistry '':'')
              then (potentialRegistry, slice_from imageRef0 (idx + 1))
              else (registry0, imageRef0));
          idx2 = Index imageRef '':'';
          (name0, tag) =
             (if idx2 \<noteq> -1 then (slice_to imageRef idx2, slice_from imageRef (idx2 + 1))
              else (imageRef, tag0));
          name = (if registry = ''docker.io'' \<and> \<not> Contains name0 ''/''
                  then ''library/'' @ name0 else name0)
      in (name, tag, registry))"

section \<open>Storage layout (package storage, current generation)\<close>

text \<open>
  A path built by \<open>filepath.Join\<close> is the list of the components joined. The encoded
  directory name is one component: neither encoding leaves a \<open>/\<close> in it.
  \<open>filepath.Join\<close> also cleans its result, so an image name that is empty, \<open>.\<close> or
  \<open>..\<close> names the images directory or its parent: such names are outside the model.
\<close>

type_synonym path = "string list"

record Layout =
  rootDir :: string

definition encodeNewEncoding :: "string \<Rightarrow> string" where
  \<comment> \<open>the two \<open>ReplaceAll\<close> calls of \<open>GetImageDir\<close>, repeated in \<open>findImageDir\<close>\<close>
  "encodeNewEncoding imageName =
     (let safeName = ReplaceAll imageName '':'' ''_COLON_'';
          safeName = ReplaceAll safeName ''/'' ''_SLASH_''
      in safeName)"

definition GetImageDir :: "Layout \<Rightarrow> string \<Rightarrow> path" where
  "GetImageDir l imageName = [rootDir l, ''images'', encodeNewEncoding imageName]"

definition GetManifestPath :: "Layout \<Rightarrow> string \<Rightarrow> path" where
  "GetManifestPath l imageName = GetImageDir l imageName @ [''manifest.json'']"

definition GetLayersDir :: "Layout \<Rightarrow> string \<Rightarrow> path" where
  "GetLayersDir l imageName = GetImageDir l imageName @ [''layers'']"

definition decodeOldEncoding :: "string \<Rightarrow> string" where
  "decodeOldEncoding dirName =
     (let lastUnderscore = LastIndex dirName ''_'' in
      if lastUnderscore = -1 then dirName
      else (let beforeTag = ReplaceAll (slice_to dirName lastUnderscore) ''_'' ''/'';
                tag = slice_from dirName (lastUnderscore + 1)
            in beforeTag @ '':'' @ tag))"

definition decodeDirName :: "string \<Rightarrow> string" where
  \<comment> \<open>the body of the loop of \<open>ListImages\<close>: from a directory name to an image name\<close>
  "decodeDirName dirName =
     (if Contains dirName ''_SLASH_'' \<or> Contains dirName ''_COLON_''
      then (let imageName = ReplaceAll dirName ''_SLASH_'' ''/'';
                imageName = ReplaceAll imageName ''_COLON_'' '':''
            in imageName)
      else decodeOldEncoding dirName)"

definition encodeOldEncoding :: "string \<Rightarrow> string" where
  "encodeOldEncoding imageName =
     (let safeName = ReplaceAll imageName '':'' ''_'';
          safeName = ReplaceAll safeName ''/'' ''_''
      in safeName)"

section \<open>More of package strings, and number formatting\<close>

definition TrimPrefix :: "string \<Rightarrow> string \<Rightarrow> string" where
  "TrimPrefix s p = (if prefix p s then drop (length p) s else s)"

text \<open>
  \<open>strings.Split\<close> cuts at the non-overlapping occurrences of the separator, from the
  left; an empty separator splits after every character.
\<close>

function Split_from :: "string \<Rightarrow> string \<Rightarrow> string \<Rightarrow> string list" where
  "Split_from [] sep cur = [rev cur]"
| "Split_from (c # cs) sep cur =
     (if sep \<noteq> [] \<and> prefix sep (c # cs)
      then rev cur # Split_from (drop (length sep) (c # cs)) sep []
      else Split_from cs sep (c # cur))"
  by pat_completeness auto
termination
  by (relation "measure (\<lambda>(s, sep, cur). length s)") (auto simp: neq_Nil_conv)

definition Split :: "string \<Rightarrow> string \<Rightarrow> string list" where
  "Split s sep = (if sep = [] then map (\<lambda>c. [c]) s else Split_from s sep [])"

text \<open>\<open>strings.SplitN\<close> for a count \<open>n \<ge> 0\<close> and a separator that is not empty.\<close>

fun SplitN :: "string \<Rightarrow> string \<Rightarrow> nat \<Rightarrow> string list" where
  "SplitN s sep 0 = []"
| "SplitN s sep (Suc 0) = [s]"
| "SplitN s sep (Suc (Suc k)) =
     (let i = Index s sep in
      if i = -1 then [s]
      else slice_to s i # SplitN (slice_from s (i + int (length sep))) sep (Suc k))"

text \<open>
  \<open>strings.TrimSpace\<close> on the white space of ASCII (tab, line feed, vertical tab, form
  feed, carriage return, space); \<open>strings.Trim\<close> with a cutset of ASCII characters.
\<close>

definition isSpace :: "char \<Rightarrow> bool" where
  "isSpace c = (c \<in> set [CHR 0x09, CHR 0x0A, CHR 0x0B, CHR 0x0C, CHR 0x0D, CHR '' ''])"

definition Trim_with :: "(char \<Rightarrow> bool) \<Rightarrow> string \<Rightarrow> string" where
  "Trim_with P s = rev (dropWhile P (rev (dropWhile P s)))"

definition TrimSpace :: "string \<Rightarrow> string" where
  "TrimSpace s = Trim_with isSpace s"

definition Trim :: "string \<Rightarrow> string \<Rightarrow> string" where
  "Trim s cutset = Trim_with (\<lambda>c. c \<in> set cutset) s"

text \<open>The verb \<open>%d\<close> of \<open>fmt\<close>: an integer in decimal.\<close>

definition digit :: "nat \<Rightarrow> char" where
  "digit n = char_of (48 + n)"

function decimal :: "nat \<Rightarrow> string" where
  "decimal n = (if n < 10 then [digit n] else decimal (n div 10) @ [digit (n mod 10)])"
  by pat_completeness auto
termination
  by (relation "measure id") auto

definition Itoa :: "int \<Rightarrow> string" where
  "Itoa i = (if i < 0 then CHR ''-'' # decimal (nat (- i)) else decimal (nat i))"

text \<open>\<open>base64.StdEncoding.EncodeToString\<close>: three bytes become four characters, padded with \<open>=\<close>.\<close>

definition b64 :: "nat \<Rightarrow> char" where
  "b64 n = ''ABCDEFGHIJKLMNOPQRSTUVWXYZabcdefghijklmnopqrstuvwxyz0123456789+/'' ! (n mod 64)"

fun b64_bytes :: "nat list \<Rightarrow> string" where
  "b64_bytes [] = []"
| "b64_bytes [a] = [b64 (a div 4), b64 ((a mod 4) * 16), CHR ''='', CHR ''='']"
| "b64_bytes [a, b] =
     [b64 (a div 4), b64 ((a mod 4) * 16 + b div 16), b64 ((b mod 16) * 4), CHR ''='']"
| "b64_bytes (a # b # c # r) =
     [b64 (a div 4), b64 ((a mod 4) * 16 + b div 16), b64 ((b mod 16) * 4 + c div 64),
      b64 (c mod 64)] @ b64_bytes r"

definition EncodeToString :: "string \<Rightarrow> string" where
  "EncodeToString s = b64_bytes (map of_char s)"

section \<open>Reference parsing as the specification words it\<close>

text \<open>
  The specification describes \<open>parseImageRef\<close> as two splits and a default prefix.
  These definitions follow its words; the splitter is a parameter, so that splitting on
  the last \<open>:\<close> (the specification) and on the first (the code) can be compared.
\<close>

definition spec_registry_split :: "string \<Rightarrow> string \<times> string" where
  "spec_registry_split r =
     (let p = takeWhile (\<lambda>c. c \<noteq> CHR ''/'') r in
      if CHR ''/'' \<in> set r \<and> (CHR ''.'' \<in> set p \<or> CHR '':'' \<in> set p)
      then (p, drop (Suc (length p)) r) else (''docker.io'', r))"

definition split_last_colon :: "string \<Rightarrow> string \<times> string" where
  "split_last_colon s =
     (if CHR '':'' \<in> set s
      then (rev (tl (dropWhile (\<lambda>c. c \<noteq> CHR '':'') (rev s))),
            rev (takeWhile (\<lambda>c. c \<noteq> CHR '':'') (rev s)))
      else (s, ''latest''))"

definition split_first_colon :: "string \<Rightarrow> string \<times> string" where
  "split_first_colon s =
     (if CHR '':'' \<in> set s
      then (takeWhile (\<lambda>c. c \<noteq> CHR '':'') s, tl (dropWhile (\<lambda>c. c \<noteq> CHR '':'') s))
      else (s, ''latest''))"

definition spec_parseImageRef :: "(string \<Rightarrow> string \<times> string) \<Rightarrow> string \<Rightarrow> string \<times> string \<times> string" where
  "spec_parseImageRef splitter r =
     (let (registry, rest) = spec_registry_split r;
          (name, tag) = splitter rest
      in (if registry = ''docker.io'' \<and> CHR ''/'' \<notin> set name then ''library/'' @ name else name,
          tag, registry))"

section \<open>The two directory-name encodings, character by character\<close>

text \<open>
  What the \<open>ReplaceAll\<close> calls of the encoders do to one character; the lemmas below
  show that the encoders are these maps. \<open>collisions\<close> lists the substrings of an image
  name on which the decoder of \<open>ListImages\<close> finds a token that the encoder did not
  write: an underscore or colon, then \<open>SLASH\<close> or \<open>COLON\<close>, then a character that is
  or becomes an underscore.
\<close>

definition enc_char :: "char \<Rightarrow> string" where
  "enc_char c = (if c = CHR '':'' then ''_COLON_'' else if c = CHR ''/'' then ''_SLASH_'' else [c])"

definition enc_colon :: "char \<Rightarrow> string" where
  "enc_colon c = (if c = CHR '':'' then ''_COLON_'' else [c])"

definition collisions :: "string list" where
  "collisions = [''_SLASH_'', ''_SLASH:'', ''_SLASH/'', '':SLASH_'', '':SLASH:'', '':SLASH/'',
                 ''_COLON_'', ''_COLON:'']"

definition collides :: "string \<Rightarrow> bool" where
  "collides r = list_ex (Contains r) collisions"

definition old_char :: "char \<Rightarrow> char" where
  "old_char c = (if c = CHR '':'' \<or> c = CHR ''/'' then CHR ''_'' else c)"

definition old_back :: "char \<Rightarrow> char" where
  "old_back c = (if c = CHR ''_'' then CHR ''/'' else c)"

section \<open>HTTP, as the registry client sees it\<close>

text \<open>
  A Go \<open>error\<close> is modelled by its message: \<open>fmt.Errorf("...: %w", err)\<close> is the prefix
  followed by the message of \<open>err\<close>, and the commands test messages with
  \<open>strings.Contains\<close>. A header is a map from canonical header names to values (one
  value per name). A URL is kept parsed, as \<open>http.Request\<close> keeps it: \<open>RawQuery\<close> and
  the rest. A response holds its whole body: a failure in the middle of reading a body
  is a failure of the transport here.
\<close>

type_synonym error = string

record url =
  Rest :: string
  RawQuery :: string

record request =
  Method :: string
  URL :: url
  Header :: "string \<rightharpoonup> string"
  Body :: string
  ContentLength :: int

record response =
  StatusCode :: int
  RespHeader :: "string \<rightharpoonup> string"
  RespBody :: string

record TokenResponse =
  tr_Token :: string
  tr_AccessToken :: string
  tr_ExpiresIn :: int
  tr_IssuedAt :: string

record Platform =
  Architecture :: string
  OS :: string
  Variant :: string

record ManifestEntry =
  me_MediaType :: string
  me_Digest :: string
  me_Platform :: Platform

record Layer =
  l_MediaType :: string
  l_Size :: int
  l_Digest :: string

record Manifest =
  SchemaVersion :: int
  MediaType :: string
  Config :: Layer
  Layers :: "Layer list"
  Manifests :: "ManifestEntry list"

text \<open>
  What lies outside the repository is a parameter of the model: the parser and printer of
  \<open>net/url\<close>, the parser and printer of query strings, the JSON decoders for the three
  shapes the program decodes, and the transport. \<open>RoundTrip n req\<close> is what
  \<open>http.Client.Do\<close> returns for \<open>req\<close> when \<open>n\<close> requests were sent before it: a
  transport error or a response. The answer may depend on \<open>n\<close>, so a server may answer
  the same request differently the second time.
\<close>

record env =
  url_Parse :: "string \<Rightarrow> error + url"
  url_String :: "url \<Rightarrow> string"
  ParseQuery :: "string \<Rightarrow> (string \<rightharpoonup> string list)"
  Encode :: "(string \<rightharpoonup> string list) \<Rightarrow> string"
  decodeTokenResponse :: "string \<Rightarrow> error + TokenResponse"
  decodeManifest :: "string \<Rightarrow> error + Manifest"
  decodeIndex :: "string \<Rightarrow> error + ManifestEntry list"
  RoundTrip :: "nat \<Rightarrow> request \<Rightarrow> error + response"

record AuthConfig =
  Username :: string
  Password :: string
  Token :: string

text \<open>
  The mutable state of a client: the \<open>AuthConfig\<close> its \<open>AuthHandler\<close> points to, and
  the requests sent so far through its \<open>http.Client\<close>, oldest first.
\<close>

record state =
  auth :: AuthConfig
  sent :: "request list"

record Client =
  baseURL :: string

definition NewRequest :: "env \<Rightarrow> string \<Rightarrow> string \<Rightarrow> string \<Rightarrow> error + request" where
  \<comment> \<open>\<open>http.NewRequest\<close> with a method that is a valid token (every caller passes a constant)\<close>
  "NewRequest e method u body =
     (case url_Parse e u of
        Inl err \<Rightarrow> Inl err
      | Inr parsed \<Rightarrow>
          Inr \<lparr>Method = method, URL = parsed, Header = Map.empty, Body = body,
               ContentLength = int (length body)\<rparr>)"

definition Header_Set :: "request \<Rightarrow> string \<Rightarrow> string \<Rightarrow> request" where
  "Header_Set req k v = req\<lparr>Header := (Header req)(k \<mapsto> v)\<rparr>"

definition Header_Get :: "response \<Rightarrow> string \<Rightarrow> string" where
  "Header_Get resp k = (case RespHeader resp k of None \<Rightarrow> [] | Some v \<Rightarrow> v)"

definition Do :: "env \<Rightarrow> request \<Rightarrow> state \<Rightarrow> (error + response) \<times> state" where
  "Do e req st = (RoundTrip e (length (sent st)) req, st\<lparr>sent := sent st @ [req]\<rparr>)"

subsection \<open>pkg/registry/auth.go\<close>

definition basicAuth :: "string \<Rightarrow> string \<Rightarrow> string" where
  "basicAuth username password = EncodeToString (username @ '':'' @ password)"

definition AddAuth :: "AuthConfig \<Rightarrow> request \<Rightarrow> request" where
  "AddAuth a req =
     (if Token a \<noteq> [] then Header_Set req ''Authorization'' (''Bearer '' @ Token a)
      else if Username a \<noteq> [] \<and> Password a \<noteq> []
      then Header_Set req ''Authorization'' (''Basic '' @ basicAuth (Username a) (Password a))
      else req)"

definition parseAuthHeader_part :: "(string \<rightharpoonup> string) \<Rightarrow> string \<Rightarrow> (string \<rightharpoonup> string)" where
  \<comment> \<open>one turn of the loop of \<open>parseAuthHeader\<close>\<close>
  "parseAuthHeader_part params part0 =
     (let part = TrimSpace part0 in
      if part = [] then params
      else (case SplitN part ''='' 2 of
              [k, v] \<Rightarrow> params(TrimSpace k \<mapsto> Trim v [CHR 0x22])
            | _ \<Rightarrow> params))"

definition parseAuthHeader :: "string \<Rightarrow> (string \<rightharpoonup> string)" where
  "parseAuthHeader header0 =
     (let header = TrimPrefix header0 ''Bearer '';
          parts = Split header '',''
      in foldl parseAuthHeader_part Map.empty parts)"

definition buildTokenURL :: "env \<Rightarrow> string \<Rightarrow> string \<Rightarrow> string \<Rightarrow> error + string" where
  "buildTokenURL e realm service scope =
     (case url_Parse e realm of
        Inl err \<Rightarrow> Inl err
      | Inr u \<Rightarrow>
          (let query = ParseQuery e (RawQuery u);
               query = (if service \<noteq> [] then query(''service'' \<mapsto> [service]) else query);
               query = (if scope \<noteq> [] then query(''scope'' \<mapsto> [scope]) else query)
           in Inr (url_String e (u\<lparr>RawQuery := Encode e query\<rparr>))))"

definition fetchToken :: "env \<Rightarrow> string \<Rightarrow> string \<Rightarrow> string \<Rightarrow> state \<Rightarrow> (error + string) \<times> state" where
  "fetchToken e realm service scope st =
     (case buildTokenURL e realm service scope of
        Inl err \<Rightarrow> (Inl err, st)
      | Inr tokenURL \<Rightarrow>
     (case NewRequest e ''GET'' tokenURL [] of
        Inl err \<Rightarrow> (Inl (''failed to create token request: '' @ err), st)
      | Inr tokenReq0 \<Rightarrow>
     (let a = auth st;
          tokenReq =
            (if Username a \<noteq> [] \<and> Password a \<noteq> []
             then Header_Set tokenReq0 ''Authorization''
                    (''Basic '' @ basicAuth (Username a) (Password a))
             else tokenReq0);
          (r, st1) = Do e tokenReq st
      in case r of
           Inl err \<Rightarrow> (Inl (''token request failed: '' @ err), st1)
         | Inr resp \<Rightarrow>
             if StatusCode resp \<noteq> 200
             then (Inl (''token request failed with status: '' @ Itoa (StatusCode resp)), st1)
             else (case decodeTokenResponse e (RespBody resp) of
                     Inl err \<Rightarrow> (Inl (''failed to decode token response: '' @ err), st1)
                   | Inr tokenResp \<Rightarrow>
                       if tr_Token tokenResp \<noteq> [] then (Inr (tr_Token tokenResp), st1)
                       else if tr_AccessToken tokenResp \<noteq> []
                       then (Inr (tr_AccessToken tokenResp), st1)
                       else (Inl ''no token in response'', st1)))))"

definition handleBearerAuth :: "env \<Rightarrow> string \<Rightarrow> state \<Rightarrow> error option \<times> state" where
  "handleBearerAuth e authHeader st =
     (let params = parseAuthHeader authHeader in
      case params ''realm'' of
        None \<Rightarrow> (Some ''no realm found in Www-Authenticate header'', st)
      | Some realm \<Rightarrow>
          (let service = (case params ''service'' of None \<Rightarrow> [] | Some v \<Rightarrow> v);
               scope = (case params ''scope'' of None \<Rightarrow> [] | Some v \<Rightarrow> v);
               (r, st1) = fetchToken e realm service scope st
           in case r of
                Inl err \<Rightarrow> (Some (''failed to fetch token: '' @ err), st1)
              | Inr token \<Rightarrow> (None, st1\<lparr>auth := (auth st1)\<lparr>Token := token\<rparr>\<rparr>)))"

definition HandleAuthChallenge :: "env \<Rightarrow> response \<Rightarrow> state \<Rightarrow> error option \<times> state" where
  "HandleAuthChallenge e resp st =
     (let authHeader = Header_Get resp ''Www-Authenticate'' in
      if authHeader = [] then (Some ''no Www-Authenticate header found'', st)
      else if HasPrefix authHeader ''Bearer'' then handleBearerAuth e authHeader st
      else if HasPrefix authHeader ''Basic'' then (None, st)
      else (Some (''unsupported authentication method: '' @ authHeader), st))"

subsection \<open>The request layer of the client\<close>

definition set_headers :: "request \<Rightarrow> (string \<rightharpoonup> string) \<Rightarrow> request" where
  \<comment> \<open>\<open>for k, v := range headers { req.Header.Set(k, v) }\<close>\<close>
  "set_headers req headers = req\<lparr>Header := Header req ++ headers\<rparr>"

definition doRequest ::
  "env \<Rightarrow> Client \<Rightarrow> string \<Rightarrow> string \<Rightarrow> (string \<rightharpoonup> string) \<Rightarrow> state
     \<Rightarrow> (error + response) \<times> state" where
  "doRequest e c method path headers st =
     (let fullURL = baseURL c @ ''/v2'' @ path in
      case NewRequest e method fullURL [] of
        Inl err \<Rightarrow> (Inl (''failed to create request: '' @ err), st)
      | Inr req0 \<Rightarrow>
     (let req = set_headers req0 headers;
          req = AddAuth (auth st) req;
          req = Header_Set req ''Docker-Distribution-API-Version'' ''registry/2.0'';
          (r, st1) = Do e req st
      in case r of
           Inl err \<Rightarrow> (Inl (''request failed: '' @ err), st1)
         | Inr resp \<Rightarrow>
             if StatusCode resp = 401
             then (case HandleAuthChallenge e resp st1 of
                     (Some err, st2) \<Rightarrow> (Inl (''authentication failed: '' @ err), st2)
                   | (None, st2) \<Rightarrow>
                       (case NewRequest e method fullURL [] of
                          Inl err \<Rightarrow> (Inl (''failed to create retry request: '' @ err), st2)
                        | Inr req0 \<Rightarrow>
                            (let req = set_headers req0 headers;
                                 req = AddAuth (auth st2) req;
                                 req = Header_Set req ''Docker-Distribution-API-Version''
                                         ''registry/2.0'';
                                 (r2, st3) = Do e req st2
                             in case r2 of
                                  Inl err \<Rightarrow> (Inl (''retry request failed: '' @ err), st3)
                                | Inr resp2 \<Rightarrow> (Inr resp2, st3))))
             else (Inr resp, st1)))"

section \<open>The request that \<open>doRequest\<close> builds\<close>

text \<open>
  \<open>doRequest\<close> builds its request twice, before the first attempt and before the retry,
  with the same statements. \<open>prepared\<close> names the result of those statements for a given
  \<open>AuthConfig\<close>, so that theorems can speak of the first request and of the retry.
\<close>

definition prepared ::
  "env \<Rightarrow> Client \<Rightarrow> string \<Rightarrow> string \<Rightarrow> (string \<rightharpoonup> string) \<Rightarrow> AuthConfig \<Rightarrow> error + request" where
  "prepared e c method path headers a =
     (case NewRequest e method (baseURL c @ ''/v2'' @ path) [] of
        Inl err \<Rightarrow> Inl err
      | Inr req0 \<Rightarrow>
          Inr (Header_Set (AddAuth a (set_headers req0 headers))
                 ''Docker-Distribution-API-Version'' ''registry/2.0''))"

section \<open>Words of the specification about the token request\<close>





section \<open>Manifests and blobs (pkg/registry)\<close>

fun GetManifest_select :: "ManifestEntry list \<Rightarrow> ManifestEntry option" where
  \<comment> \<open>the loop of \<open>GetManifest\<close> over \<open>manifest.Manifests\<close>, up to its \<open>return\<close>\<close>
  "GetManifest_select [] = None"
| "GetManifest_select (m # ms) =
     (if Architecture (me_Platform m) = ''amd64'' \<and> OS (me_Platform m) = ''linux''
      then Some m else GetManifest_select ms)"

definition manifest_Accept :: "string \<rightharpoonup> string" where
  "manifest_Accept =
     [''Accept'' \<mapsto> ''application/vnd.docker.distribution.manifest.v2+json,application/vnd.docker.distribution.manifest.list.v2+json'']"

text \<open>
  \<open>GetManifest\<close> calls itself on the digest of the entry it selects, and a registry may
  answer every digest with another list: the function is partial, and \<open>None\<close> is the
  call that never returns.
\<close>

partial_function (option) GetManifest ::
  "env \<Rightarrow> Client \<Rightarrow> string \<Rightarrow> string \<Rightarrow> state \<Rightarrow> ((error + Manifest) \<times> state) option" where
  "GetManifest e c name reference st =
     (let path = ''/'' @ name @ ''/manifests/'' @ reference;
          headers = manifest_Accept
      in case doRequest e c ''GET'' path headers st of
           (Inl err, st1) \<Rightarrow> Some (Inl (''failed to get manifest: '' @ err), st1)
         | (Inr resp, st1) \<Rightarrow>
             if StatusCode resp \<noteq> 200
             then Some (Inl (''unexpected status code '' @ Itoa (StatusCode resp) @ '': ''
                              @ RespBody resp), st1)
             else (let contentType = Header_Get resp ''Content-Type'' in
                   case decodeManifest e (RespBody resp) of
                     Inl err \<Rightarrow> Some (Inl (''failed to decode manifest: '' @ err), st1)
                   | Inr manifest \<Rightarrow>
                       (let isManifestList =
                              (MediaType manifest = ''application/vnd.docker.distribution.manifest.list.v2+json''
                               \<or> contentType = ''application/vnd.docker.distribution.manifest.list.v2+json''
                               \<or> MediaType manifest = ''application/vnd.oci.image.index.v1+json''
                               \<or> contentType = ''application/vnd.oci.image.index.v1+json'')
                        in if isManifestList
                           then (case GetManifest_select (Manifests manifest) of
                                   Some m \<Rightarrow> GetManifest e c name (me_Digest m) st1
                                 | None \<Rightarrow>
                                     Some (Inl ''no amd64 manifest found in manifest list'', st1))
                           else Some (Inr manifest, st1))))"

definition GetManifestRaw ::
  "env \<Rightarrow> Client \<Rightarrow> string \<Rightarrow> string \<Rightarrow> state \<Rightarrow> (error + string \<times> string) \<times> state" where
  \<comment> \<open>the result is \<open>(body, contentType)\<close>\<close>
  "GetManifestRaw e c name reference st =
     (let path = ''/'' @ name @ ''/manifests/'' @ reference;
          headers = manifest_Accept
      in case doRequest e c ''GET'' path headers st of
           (Inl err, st1) \<Rightarrow> (Inl (''failed to get manifest: '' @ err), st1)
         | (Inr resp, st1) \<Rightarrow>
             if StatusCode resp \<noteq> 200
             then (Inl (''unexpected status code '' @ Itoa (StatusCode resp) @ '': ''
                         @ RespBody resp), st1)
             else (let contentType = Header_Get resp ''Content-Type'';
                       body = RespBody resp
                   in (Inr (body, contentType), st1)))"

definition StartBlobUpload :: "env \<Rightarrow> Client \<Rightarrow> string \<Rightarrow> state \<Rightarrow> (error + string) \<times> state" where
  "StartBlobUpload e c name st =
     (let path = ''/'' @ name @ ''/blobs/uploads/'' in
      case doRequest e c ''POST'' path Map.empty st of
        (Inl err, st1) \<Rightarrow> (Inl (''failed to start upload: '' @ err), st1)
      | (Inr resp, st1) \<Rightarrow>
          if StatusCode resp \<noteq> 202
          then (Inl (''unexpected status code '' @ Itoa (StatusCode resp)), st1)
          else (let uploadURL = Header_Get resp ''Location'' in
                if uploadURL = [] then (Inl ''no upload URL in response'', st1)
                else if \<not> HasPrefix uploadURL ''http://'' \<and> \<not> HasPrefix uploadURL ''https://''
                then (Inr (baseURL c @ ''/v2'' @ uploadURL), st1)
                else (Inr uploadURL, st1)))"

definition UploadBlobMonolithic ::
  "env \<Rightarrow> string \<Rightarrow> string \<Rightarrow> int \<Rightarrow> string \<Rightarrow> state \<Rightarrow> error option \<times> state" where
  "UploadBlobMonolithic e uploadURL reader sz digest st =
     (case NewRequest e ''PUT'' uploadURL reader of
        Inl err \<Rightarrow> (Some (''failed to create request: '' @ err), st)
      | Inr req0 \<Rightarrow>
     (let req = Header_Set req0 ''Content-Type'' ''application/octet-stream'';
          req = Header_Set req ''Content-Length'' (Itoa sz);
          req = req\<lparr>ContentLength := sz\<rparr>;
          req = (if RawQuery (URL req) \<noteq> []
                 then req\<lparr>URL := (URL req)\<lparr>RawQuery := RawQuery (URL req) @ ''&digest='' @ digest\<rparr>\<rparr>
                 else req\<lparr>URL := (URL req)\<lparr>RawQuery := ''digest='' @ digest\<rparr>\<rparr>);
          req = AddAuth (auth st) req;
          req = Header_Set req ''Docker-Distribution-API-Version'' ''registry/2.0''
      in case Do e req st of
           (Inl err, st1) \<Rightarrow> (Some (''request failed: '' @ err), st1)
         | (Inr resp, st1) \<Rightarrow>
             if StatusCode resp \<noteq> 201
             then (Some (''unexpected status code '' @ Itoa (StatusCode resp) @ '': ''
                          @ RespBody resp), st1)
             else (None, st1)))"

section \<open>The file system and the store (package storage)\<close>

text \<open>
  The file system is a map from paths to nodes. \<open>fault op p = Some err\<close> says that the
  system call \<open>op\<close> fails on \<open>p\<close> with \<open>err\<close> for a reason outside the model (a
  permission, a full disk); a failed call leaves the file system as it was.
\<close>

datatype node = Dir | File string

record fs =
  nodes :: "path \<rightharpoonup> node"
  fault :: "string \<Rightarrow> path \<rightharpoonup> error"

fun path_string :: "path \<Rightarrow> string" where
  "path_string [] = []"
| "path_string [x] = x"
| "path_string (x # y # ys) = x @ ''/'' @ path_string (y # ys)"


definition os_MkdirAll :: "fs \<Rightarrow> path \<Rightarrow> error option \<times> fs" where
  "os_MkdirAll f p =
     (case fault f ''mkdir'' p of
        Some err \<Rightarrow> (Some err, f)
      | None \<Rightarrow>
          if list_ex (\<lambda>q. case nodes f q of Some (File d) \<Rightarrow> True | _ \<Rightarrow> False) (prefixes p)
          then (Some (''mkdir '' @ path_string p @ '': not a directory''), f)
          else (None, f\<lparr>nodes := (\<lambda>q. if q \<noteq> [] \<and> prefix q p then Some Dir else nodes f q)\<rparr>))"

definition os_WriteFile :: "fs \<Rightarrow> path \<Rightarrow> string \<Rightarrow> error option \<times> fs" where
  "os_WriteFile f p data =
     (case fault f ''write'' p of
        Some err \<Rightarrow> (Some err, f)
      | None \<Rightarrow>
          if p = [] \<or> nodes f (butlast p) \<noteq> Some Dir
          then (Some (''open '' @ path_string p @ '': no such file or directory''), f)
          else if nodes f p = Some Dir
          then (Some (''open '' @ path_string p @ '': is a directory''), f)
          else (None, f\<lparr>nodes := (nodes f)(p \<mapsto> File data)\<rparr>))"

definition os_ReadFile :: "fs \<Rightarrow> path \<Rightarrow> error + string" where
  "os_ReadFile f p =
     (case fault f ''read'' p of
        Some err \<Rightarrow> Inl err
      | None \<Rightarrow>
          (case nodes f p of
             None \<Rightarrow> Inl (''open '' @ path_string p @ '': no such file or directory'')
           | Some Dir \<Rightarrow> Inl (''read '' @ path_string p @ '': is a directory'')
           | Some (File data) \<Rightarrow> Inr data))"


definition GetConfigPath :: "Layout \<Rightarrow> string \<Rightarrow> path" where
  "GetConfigPath l imageName = GetImageDir l imageName @ [''config.json'']"

definition GetLayerPath :: "Layout \<Rightarrow> string \<Rightarrow> string \<Rightarrow> path" where
  "GetLayerPath l imageName digest =
     (let safeDigest = ReplaceAll digest '':'' ''_''
      in GetLayersDir l imageName @ [safeDigest @ ''.tar.gz''])"

definition CreateImageDir :: "Layout \<Rightarrow> string \<Rightarrow> fs \<Rightarrow> error option \<times> fs" where
  "CreateImageDir l imageName f =
     (let layersDir = GetLayersDir l imageName in
      case os_MkdirAll f layersDir of
        (Some err, f1) \<Rightarrow> (Some (''failed to create image directory: '' @ err), f1)
      | (None, f1) \<Rightarrow> (None, f1))"

definition SaveManifestRaw :: "Layout \<Rightarrow> string \<Rightarrow> string \<Rightarrow> fs \<Rightarrow> error option \<times> fs" where
  "SaveManifestRaw l imageName data f =
     (case CreateImageDir l imageName f of
        (Some err, f1) \<Rightarrow> (Some err, f1)
      | (None, f1) \<Rightarrow>
          (let manifestPath = GetManifestPath l imageName in
           case os_WriteFile f1 manifestPath data of
             (Some err, f2) \<Rightarrow> (Some (''failed to write manifest: '' @ err), f2)
           | (None, f2) \<Rightarrow> (None, f2)))"

definition LoadManifestRaw :: "Layout \<Rightarrow> string \<Rightarrow> fs \<Rightarrow> error + string" where
  "LoadManifestRaw l imageName f =
     (let manifestPath = GetManifestPath l imageName in
      case os_ReadFile f manifestPath of
        Inl err \<Rightarrow> Inl (''failed to read manifest: '' @ err)
      | Inr data \<Rightarrow> Inr data)"




subsection \<open>Uploading a blob from the store\<close>

definition UploadBlob ::
  "env \<Rightarrow> fs \<Rightarrow> Client \<Rightarrow> string \<Rightarrow> string \<Rightarrow> path \<Rightarrow> state \<Rightarrow> error option \<times> state" where
  \<comment> \<open>\<open>os.Open\<close> and the reads of the transport are one read of the file here\<close>
  "UploadBlob e f c name digest srcPath st =
     (case os_ReadFile f srcPath of
        Inl err \<Rightarrow> (Some (''failed to open file: '' @ err), st)
      | Inr file \<Rightarrow>
     (case fault f ''fstat'' srcPath of
        Some err \<Rightarrow> (Some (''failed to stat file: '' @ err), st)
      | None \<Rightarrow>
     (case StartBlobUpload e c name st of
        (Inl err, st1) \<Rightarrow> (Some (''failed to start upload: '' @ err), st1)
      | (Inr uploadURL, st1) \<Rightarrow>
     (case UploadBlobMonolithic e uploadURL file (int (length file)) digest st1 of
        (Some err, st2) \<Rightarrow> (Some (''failed to upload blob: '' @ err), st2)
      | (None, st2) \<Rightarrow> (None, st2)))))"

section \<open>The commands (cmd/pull.go, cmd/push.go)\<close>

text \<open>
  A command that prints an error and calls \<open>os.Exit(1)\<close> ends with \<open>Exit\<close> and the
  message; a slice out of range is a \<open>Panic\<close>.
\<close>

datatype outcome = Completed | Exit string | Panic

fun pull_select :: "ManifestEntry list \<Rightarrow> ManifestEntry option" where
  \<comment> \<open>the loop of \<open>pullCmd\<close> over \<open>index.Manifests\<close>, up to its \<open>break\<close>\<close>
  "pull_select [] = None"
| "pull_select (m # ms) =
     (if Architecture (me_Platform m) = ''amd64'' \<and> OS (me_Platform m) = ''linux''
      then Some m else pull_select ms)"

definition pull_manifest ::
  "env \<Rightarrow> Client \<Rightarrow> Layout \<Rightarrow> string \<Rightarrow> string \<Rightarrow> string \<Rightarrow> state \<Rightarrow> fs
     \<Rightarrow> outcome \<times> state \<times> fs" where
  \<comment> \<open>\<open>pullCmd\<close> from "Get raw manifest for storage" to the end\<close>
  "pull_manifest e c l name tag imageRef st f =
     (case GetManifestRaw e c name tag st of
        (Inl err, st1) \<Rightarrow> (Exit (''Error: Failed to get raw manifest: '' @ err @ [CHR 0x0A]), st1, f)
      | (Inr (manifestRaw0, contentType0), st1) \<Rightarrow>
     (let isManifestList =
            (contentType0 = ''application/vnd.docker.distribution.manifest.list.v2+json''
             \<or> contentType0 = ''application/vnd.oci.image.index.v1+json'');
          platform =
            (if isManifestList
             then (case decodeIndex e manifestRaw0 of
                     Inl err \<Rightarrow> None
                   | Inr manifests \<Rightarrow> pull_select manifests)
             else None)
      in case (case platform of
                 None \<Rightarrow> (Inr (manifestRaw0, contentType0), st1)
               | Some m \<Rightarrow> GetManifestRaw e c name (me_Digest m) st1) of
           (Inl err, st2) \<Rightarrow>
             (Exit (''Error: Failed to get platform manifest: '' @ err @ [CHR 0x0A]), st2, f)
         | (Inr (manifestRaw1, contentType), st2) \<Rightarrow>
     (let manifestRaw =
            (if contentType = ''application/vnd.oci.image.manifest.v1+json''
             then (let m1 = ReplaceAll manifestRaw1 ''application/vnd.oci.image.config.v1+json''
                              ''application/vnd.docker.container.image.v1+json'';
                       m2 = ReplaceAll m1 ''application/vnd.oci.image.layer.v1.tar+gzip''
                              ''application/vnd.docker.image.rootfs.diff.tar.gzip'';
                       m3 = ReplaceAll m2 ''application/vnd.oci.image.manifest.v1+json''
                              ''application/vnd.docker.distribution.manifest.v2+json''
                   in m3)
             else manifestRaw1)
      in case SaveManifestRaw l imageRef manifestRaw f of
           (Some err, f1) \<Rightarrow> (Exit (''Error: Failed to save manifest: '' @ err @ [CHR 0x0A]), st2, f1)
         | (None, f1) \<Rightarrow> (Completed, st2, f1))))"

definition blobExistsError :: "error \<Rightarrow> bool" where
  \<comment> \<open>the test that \<open>pushCmd\<close> writes out for the config and again for every layer\<close>
  "blobExistsError err =
     (Contains err ''BLOB_UPLOAD_INVALID'' \<or> Contains err ''already exists''
      \<or> Contains err ''exist blob'')"

fun push_layers ::
  "env \<Rightarrow> fs \<Rightarrow> Client \<Rightarrow> Layout \<Rightarrow> string \<Rightarrow> string \<Rightarrow> Layer list \<Rightarrow> state \<Rightarrow> outcome \<times> state" where
  \<comment> \<open>the loop of \<open>pushCmd\<close> over \<open>manifest.Layers\<close>; it prints the first 12 bytes of the digest\<close>
  "push_layers e f c l name imageRef [] st = (Completed, st)"
| "push_layers e f c l name imageRef (layer # rest) st =
     (let layerPath = GetLayerPath l imageRef (l_Digest layer) in
      if length (l_Digest layer) < 12 then (Panic, st)
      else (case UploadBlob e f c name (l_Digest layer) layerPath st of
              (Some err, st1) \<Rightarrow>
                if blobExistsError err then push_layers e f c l name imageRef rest st1
                else (Exit (''Error: Failed to upload layer: '' @ err @ [CHR 0x0A]), st1)
            | (None, st1) \<Rightarrow> push_layers e f c l name imageRef rest st1))"

definition push_blobs ::
  "env \<Rightarrow> fs \<Rightarrow> Client \<Rightarrow> Layout \<Rightarrow> string \<Rightarrow> string \<Rightarrow> Manifest \<Rightarrow> state \<Rightarrow> outcome \<times> state" where
  \<comment> \<open>\<open>pushCmd\<close> from "Upload config blob" to the end of the loop over the layers\<close>
  "push_blobs e f c l name imageRef manifest st =
     (let configPath = GetConfigPath l imageRef in
      case UploadBlob e f c name (l_Digest (Config manifest)) configPath st of
        (Some err, st1) \<Rightarrow>
          if blobExistsError err then push_layers e f c l name imageRef (Layers manifest) st1
          else (Exit (''Error: Failed to upload config: '' @ err @ [CHR 0x0A]), st1)
      | (None, st1) \<Rightarrow> push_layers e f c l name imageRef (Layers manifest) st1)"

section \<open>Words of the specification about the store and the resolver\<close>




text \<open>
  A manifest list entry for the platform that \<open>GetManifest\<close> looks for, and the test by
  which a decoded result counts as a manifest list or an OCI image index.
\<close>

definition amd64_linux :: "ManifestEntry \<Rightarrow> bool" where
  "amd64_linux m = (Architecture (me_Platform m) = ''amd64'' \<and> OS (me_Platform m) = ''linux'')"

definition list_types :: "string list" where
  "list_types = [''application/vnd.docker.distribution.manifest.list.v2+json'',
                 ''application/vnd.oci.image.index.v1+json'']"

definition indicates_list :: "Manifest \<Rightarrow> response \<Rightarrow> bool" where
  "indicates_list manifest resp =
     (MediaType manifest \<in> set list_types \<or> Header_Get resp ''Content-Type'' \<in> set list_types)"

text \<open>
  \<open>oci_to_docker\<close> is the rewriting that \<open>pullCmd\<close> applies to a manifest whose content
  type is the OCI image manifest type. \<open>last_response e st resp\<close> says that \<open>resp\<close> is
  what the transport answered to the request sent last.
\<close>

definition oci_manifest_type :: string where
  "oci_manifest_type = ''application/vnd.oci.image.manifest.v1+json''"

definition oci_to_docker :: "string \<Rightarrow> string" where
  "oci_to_docker body =
     ReplaceAll
       (ReplaceAll
          (ReplaceAll body ''application/vnd.oci.image.config.v1+json''
             ''application/vnd.docker.container.image.v1+json'')
          ''application/vnd.oci.image.layer.v1.tar+gzip''
          ''application/vnd.docker.image.rootfs.diff.tar.gzip'')
       ''application/vnd.oci.image.manifest.v1+json''
       ''application/vnd.docker.distribution.manifest.v2+json''"

definition last_response :: "env \<Rightarrow> state \<Rightarrow> response \<Rightarrow> bool" where
  "last_response e st resp =
     (sent st \<noteq> [] \<and> RoundTrip e (length (sent st) - 1) (last (sent st)) = Inr resp)"

text \<open>The substrings by which \<open>pushCmd\<close> takes an upload error for "the blob is there".\<close>

definition exists_markers :: "string list" where
  "exists_markers = [''BLOB_UPLOAD_INVALID'', ''already exists'', ''exist blob'']"

section \<open>Sample registries\<close>

text \<open>
  Concrete environments on which the theorems are instantiated. \<open>scripted rs\<close> is a
  transport that answers the \<open>n\<close>-th request with the \<open>n\<close>-th entry of \<open>rs\<close>, whatever
  the request, and refuses the connection afterwards. \<open>sample_env\<close> parses every
  non-empty string as a URL without query, and decodes a token response by taking the
  whole body as the \<open>access_token\<close>.
\<close>

definition scripted :: "(error + response) list \<Rightarrow> nat \<Rightarrow> request \<Rightarrow> error + response" where
  "scripted rs n req = (if n < length rs then rs ! n else Inl ''connection refused'')"

definition sample_env :: env where
  "sample_env =
     \<lparr>url_Parse = (\<lambda>s. if s = [] then Inl ''empty url'' else Inr \<lparr>Rest = s, RawQuery = []\<rparr>),
      url_String = (\<lambda>u. if RawQuery u = [] then Rest u else Rest u @ ''?'' @ RawQuery u),
      ParseQuery = (\<lambda>s. Map.empty),
      Encode = (\<lambda>q. (case q ''scope'' of Some [v] \<Rightarrow> ''scope='' @ v | _ \<Rightarrow> [])
                   @ (case q ''service'' of Some [v] \<Rightarrow> ''&service='' @ v | _ \<Rightarrow> [])),
      decodeTokenResponse = (\<lambda>b. if b = [] then Inl ''EOF''
                                else Inr \<lparr>tr_Token = [], tr_AccessToken = b, tr_ExpiresIn = 300,
                                          tr_IssuedAt = []\<rparr>),
      decodeManifest = (\<lambda>b. Inl ''unexpected end of JSON input''),
      decodeIndex = (\<lambda>b. Inl ''unexpected end of JSON input''),
      RoundTrip = scripted []\<rparr>"

definition sample_client :: Client where
  "sample_client = \<lparr>baseURL = ''https://registry.example.com''\<rparr>"

definition anonymous :: state where
  "anonymous = \<lparr>auth = \<lparr>Username = [], Password = [], Token = []\<rparr>, sent = []\<rparr>"

definition unauthorized :: "string option \<Rightarrow> response" where
  "unauthorized challenge =
     \<lparr>StatusCode = 401, RespHeader = (\<lambda>k. if k = ''Www-Authenticate'' then challenge else None),
      RespBody = []\<rparr>"

definition ok_response :: "string \<Rightarrow> string \<Rightarrow> response" where
  "ok_response ct b =
     \<lparr>StatusCode = 200, RespHeader = [''Content-Type'' \<mapsto> ct], RespBody = b\<rparr>"

definition bearer_challenge :: string where
  \<open>bearer_challenge = ''Bearer realm="https://auth.example.com/token",service="registry.example.com",scope="repository:library/nginx:pull"''\<close>

definition bearer_env :: env where
  "bearer_env = sample_env\<lparr>RoundTrip := scripted
     [Inr (unauthorized (Some bearer_challenge)), Inr (ok_response ''application/json'' ''tok123''),
      Inr (unauthorized (Some bearer_challenge))]\<rparr>"

definition first_request :: request where
  "first_request =
     \<lparr>Method = ''GET'', URL = \<lparr>Rest = ''https://registry.example.com/v2/'', RawQuery = []\<rparr>,
      Header = [''Docker-Distribution-API-Version'' \<mapsto> ''registry/2.0''], Body = [],
      ContentLength = 0\<rparr>"

definition token_request :: request where
  "token_request =
     \<lparr>Method = ''GET'',
      URL = \<lparr>Rest = ''https://auth.example.com/token?scope=repository:library/nginx:pull&service=registry.example.com'',
             RawQuery = []\<rparr>,
      Header = Map.empty, Body = [], ContentLength = 0\<rparr>"

text \<open>
  A store that holds \<open>nginx:latest\<close> under both generations of directory names, one that
  holds it under the current one only, and a registry that answers the tag with a manifest
  list and the digest with an image manifest.
\<close>

definition sample_layout :: Layout where
  "sample_layout = \<lparr>rootDir = ''/home/user/.timage''\<rparr>"



definition empty_store :: fs where
  "empty_store =
     \<lparr>nodes = (\<lambda>p. if p \<in> set [[''/home/user/.timage''], [''/home/user/.timage'', ''images'']]
                    then Some Dir else None),
      fault = (\<lambda>op p. None)\<rparr>"

definition entry :: "string \<Rightarrow> string \<Rightarrow> string \<Rightarrow> ManifestEntry" where
  "entry arch os digest =
     \<lparr>me_MediaType = ''application/vnd.docker.distribution.manifest.v2+json'', me_Digest = digest,
      me_Platform = \<lparr>Architecture = arch, OS = os, Variant = []\<rparr>\<rparr>"

definition list_manifest :: Manifest where
  "list_manifest =
     \<lparr>SchemaVersion = 2, MediaType = ''application/vnd.docker.distribution.manifest.list.v2+json'',
      Config = \<lparr>l_MediaType = [], l_Size = 0, l_Digest = []\<rparr>, Layers = [],
      Manifests = [entry ''arm64'' ''linux'' ''sha256:aaa'', entry ''amd64'' ''windows'' ''sha256:bbb'',
                   entry ''amd64'' ''linux'' ''sha256:ccc'', entry ''amd64'' ''linux'' ''sha256:ddd'']\<rparr>"

definition image_manifest :: Manifest where
  "image_manifest =
     \<lparr>SchemaVersion = 2, MediaType = ''application/vnd.docker.distribution.manifest.v2+json'',
      Config = \<lparr>l_MediaType = ''application/vnd.docker.container.image.v1+json'', l_Size = 7,
                l_Digest = ''sha256:c0ffee''\<rparr>,
      Layers = [\<lparr>l_MediaType = ''application/vnd.docker.image.rootfs.diff.tar.gzip'', l_Size = 9,
                 l_Digest = ''sha256:0123456789ab''\<rparr>],
      Manifests = []\<rparr>"

definition list_env :: env where
  "list_env = sample_env
     \<lparr>decodeManifest := (\<lambda>b. if b = ''LIST'' then Inr list_manifest
                             else if b = ''IMAGE'' then Inr image_manifest
                             else Inl ''invalid character''),
      RoundTrip := scripted
        [Inr (ok_response ''application/vnd.docker.distribution.manifest.list.v2+json'' ''LIST''),
         Inr (ok_response ''application/vnd.docker.distribution.manifest.v2+json'' ''IMAGE'')]\<rparr>"

text \<open>
  A registry that serves one manifest with the OCI content type, and one that serves the
  same manifest with the Docker content type.
\<close>

definition oci_body :: string where
  \<open>oci_body = ''{"schemaVersion":2,"mediaType":"application/vnd.oci.image.manifest.v1+json"}''\<close>

definition docker_body :: string where
  \<open>docker_body = ''{"schemaVersion":2,"mediaType":"application/vnd.docker.distribution.manifest.v2+json"}''\<close>

definition oci_env :: env where
  "oci_env = sample_env\<lparr>RoundTrip := scripted [Inr (ok_response oci_manifest_type oci_body)]\<rparr>"

definition docker_env :: env where
  "docker_env = sample_env\<lparr>RoundTrip := scripted
     [Inr (ok_response ''application/vnd.docker.distribution.manifest.v2+json'' docker_body)]\<rparr>"

text \<open>
  A registry that opens an upload session and then answers the \<open>PUT\<close> with a given
  response, a store that holds the config of \<open>nginx:latest\<close>, and a manifest without
  layers.
\<close>

definition upload_session :: response where
  "upload_session =
     \<lparr>StatusCode = 202,
      RespHeader = [''Location'' \<mapsto> ''https://registry.example.com/v2/library/nginx/blobs/uploads/7f3a''],
      RespBody = []\<rparr>"

definition rejected :: "int \<Rightarrow> string \<Rightarrow> response" where
  "rejected code b = \<lparr>StatusCode = code, RespHeader = Map.empty, RespBody = b\<rparr>"

definition push_env :: "response \<Rightarrow> env" where
  "push_env answer = sample_env\<lparr>RoundTrip := scripted [Inr upload_session, Inr answer]\<rparr>"

definition push_store :: fs where
  "push_store =
     \<lparr>nodes = (\<lambda>p. if p \<in> set [[''/home/user/.timage''], [''/home/user/.timage'', ''images''],
                                  [''/home/user/.timage'', ''images'', ''nginx_COLON_latest'']]
                    then Some Dir
                    else if p = [''/home/user/.timage'', ''images'', ''nginx_COLON_latest'', ''config.json'']
                    then Some (File ''{}'') else None),
      fault = (\<lambda>op p. None)\<rparr>"

definition config_only :: Manifest where
  "config_only = image_manifest\<lparr>Layers := []\<rparr>"



section \<open>Facts about the string functions\<close>

lemma Index_ge_m1: "Index s sub \<ge> -1"
  by (induction s) (auto simp: Let_def)

lemma Index_eq_m1: "Index s sub = -1 \<longleftrightarrow> \<not> sublist sub s"
proof (induction s)
  case Nil
  then show ?case by simp
next
  case (Cons c cs)
  have "Index cs sub + 1 \<noteq> -1" using Index_ge_m1 [of cs sub] by linarith
  with Cons show ?case
    by (auto simp: Let_def sublist_Cons_right)
qed

lemma Contains_sublist: "Contains s sub \<longleftrightarrow> sublist sub s"
  using Index_ge_m1 [of s sub] Index_eq_m1 [of s sub] unfolding Contains_def by linarith

lemma Contains_char: "Contains s [c] \<longleftrightarrow> c \<in> set s"
  unfolding Contains_sublist sublist_def by (auto simp: in_set_conv_decomp)

lemma Index_char: "Index s [c] = (if c \<in> set s then int (length (takeWhile (\<lambda>x. x \<noteq> c) s)) else -1)"
proof (induction s)
  case Nil
  then show ?case by simp
next
  case (Cons a s)
  show ?case
  proof (cases "a = c")
    case True
    then show ?thesis by simp
  next
    case False
    then have "Index (a # s) [c] = (if Index s [c] = -1 then -1 else Index s [c] + 1)"
      by (simp add: Let_def)
    with False Cons show ?thesis by simp
  qed
qed

lemma slice_to_Index_char:
  "c \<in> set s \<Longrightarrow> slice_to s (Index s [c]) = takeWhile (\<lambda>x. x \<noteq> c) s"
  by (simp add: slice_to_def Index_char takeWhile_eq_take [symmetric])

lemma slice_from_Index_char:
  "c \<in> set s \<Longrightarrow> slice_from s (Index s [c] + 1) = tl (dropWhile (\<lambda>x. x \<noteq> c) s)"
  by (simp add: slice_from_def Index_char dropWhile_eq_drop drop_Suc tl_drop nat_add_distrib)

lemma Index_char_m1: "Index s [c] = -1 \<longleftrightarrow> c \<notin> set s"
  by (simp add: Index_char)

lemma ReplaceAll_char:
  "ReplaceAll s [c] new = concat (map (\<lambda>x. if x = c then new else [x]) s)"
  by (induction s) auto

lemma ReplaceAll_char_char: "ReplaceAll s [c] [d] = map (\<lambda>x. if x = c then d else x) s"
  by (induction s) auto

lemma Contains_Cons:
  "sub \<noteq> [] \<Longrightarrow> Contains (c # s) sub \<longleftrightarrow> prefix sub (c # s) \<or> Contains s sub"
  by (simp add: Contains_sublist sublist_Cons_right)

lemma LastIndex_char_none: "c \<notin> set s \<Longrightarrow> LastIndex s [c] = -1"
  by (induction s) (auto simp: Let_def)

lemma LastIndex_char_last:
  "c \<notin> set ys \<Longrightarrow> LastIndex (xs @ c # ys) [c] = int (length xs)"
proof (induction xs)
  case Nil
  then show ?case by (simp add: LastIndex_char_none Let_def)
next
  case (Cons a xs)
  then show ?case by (simp add: Let_def)
qed

section \<open>C1: reference parsing\<close>

text \<open>
  C1, as stated (tag split at the last \<open>:\<close>), fails: for \<open>app:v1:rc\<close> the code
  returns name \<open>library/app\<close> and tag \<open>v1:rc\<close>, the specification's words give name
  \<open>library/app:v1\<close> and tag \<open>rc\<close>.
\<close>

theorem parseImageRef_last_colon_counterexample:
  "parseImageRef ''app:v1:rc'' = (''library/app'', ''v1:rc'', ''docker.io'')
   \<and> spec_parseImageRef split_last_colon ''app:v1:rc'' = (''library/app:v1'', ''rc'', ''docker.io'')
   \<and> parseImageRef ''app:v1:rc'' \<noteq> spec_parseImageRef split_last_colon ''app:v1:rc''"
  by (simp add: parseImageRef_def spec_parseImageRef_def spec_registry_split_def
      split_last_colon_def Contains_def slice_to_def slice_from_def Let_def)

text \<open>
  C1 (amended): for every input string, the registry host is the prefix before the first
  \<open>/\<close> only when that prefix contains \<open>.\<close> or \<open>:\<close> (otherwise the registry is
  \<open>docker.io\<close> and nothing is stripped); the remaining name is split at its FIRST
  \<open>:\<close> into name and tag (tag \<open>latest\<close> when it has no \<open>:\<close>); and a name without
  \<open>/\<close> on registry \<open>docker.io\<close> is prefixed with \<open>library/\<close>.
\<close>

theorem parseImageRef_first_colon:
  "parseImageRef r = spec_parseImageRef split_first_colon r"
  unfolding parseImageRef_def spec_parseImageRef_def spec_registry_split_def
    split_first_colon_def
  by (auto simp: Let_def Contains_char Index_char_m1 slice_to_Index_char slice_from_Index_char
      drop_Suc tl_drop dropWhile_eq_drop split: prod.splits)

section \<open>C5: the current encoding\<close>

lemma encodeNewEncoding_concat: "encodeNewEncoding r = concat (map enc_char r)"
proof -
  have "ReplaceAll (ReplaceAll r '':'' ''_COLON_'') ''/'' ''_SLASH_'' = concat (map enc_char r)"
    by (induction r) (auto simp: ReplaceAll_char enc_char_def)
  then show ?thesis by (simp add: encodeNewEncoding_def)
qed

lemma prefix_enc_char:
  assumes "set w \<inter> {CHR ''_'', CHR '':'', CHR ''/''} = {}"
  shows "prefix (w @ ''_'') (concat (map enc_char r)) \<longleftrightarrow>
     (\<exists>x rest. r = w @ x # rest \<and> x \<in> {CHR ''_'', CHR '':'', CHR ''/''})"
  using assms
proof (induction w arbitrary: r)
  case Nil
  show ?case by (cases r) (auto simp: enc_char_def)
next
  case (Cons a w)
  then have a: "a \<noteq> CHR ''_''" "a \<noteq> CHR '':''" "a \<noteq> CHR ''/''" and w: "set w \<inter> {CHR ''_'', CHR '':'', CHR ''/''} = {}"
    by auto
  show ?case
  proof (cases r)
    case Nil
    then show ?thesis by simp
  next
    case (Cons b r')
    show ?thesis using a Cons.IH [OF w, of r'] unfolding Cons
      by (auto simp: enc_char_def)
  qed
qed

lemma prefix_enc_colon:
  assumes "set w \<inter> {CHR ''_'', CHR '':''} = {}"
  shows "prefix (w @ ''_'') (concat (map enc_colon r)) \<longleftrightarrow>
     (\<exists>x rest. r = w @ x # rest \<and> x \<in> {CHR ''_'', CHR '':''})"
  using assms
proof (induction w arbitrary: r)
  case Nil
  show ?case by (cases r) (auto simp: enc_colon_def)
next
  case (Cons a w)
  then have a: "a \<noteq> CHR ''_''" "a \<noteq> CHR '':''" and w: "set w \<inter> {CHR ''_'', CHR '':''} = {}"
    by auto
  show ?case
  proof (cases r)
    case Nil
    then show ?thesis by simp
  next
    case (Cons b r')
    show ?thesis using a Cons.IH [OF w, of r'] unfolding Cons
      by (auto simp: enc_colon_def)
  qed
qed


lemma enc_char_simps:
  "enc_char CHR '':'' = ''_COLON_''" "enc_char CHR ''/'' = ''_SLASH_''"
  "c \<noteq> CHR '':'' \<Longrightarrow> c \<noteq> CHR ''/'' \<Longrightarrow> enc_char c = [c]"
  by (simp_all add: enc_char_def)

lemma enc_colon_simps:
  "enc_colon CHR '':'' = ''_COLON_''" "c \<noteq> CHR '':'' \<Longrightarrow> enc_colon c = [c]"
  by (simp_all add: enc_colon_def)

lemma decode_slash:
  assumes "\<not> collides r"
  shows "ReplaceAll (concat (map enc_char r)) ''_SLASH_'' ''/'' = concat (map enc_colon r)"
  using assms
proof (induction r)
  case Nil
  then show ?case by simp
next
  case (Cons c r)
  from Cons.prems have nc: "\<not> collides r"
    by (auto simp: collides_def collisions_def Contains_Cons)
  note IH = Cons.IH [OF nc]
  have no_pre: "\<not> prefix ''SLASH_'' (concat (map enc_char r))" if "c = CHR ''_'' \<or> c = CHR '':''"
  proof
    assume "prefix ''SLASH_'' (concat (map enc_char r))"
    then have "\<exists>x rest. r = ''SLASH'' @ x # rest \<and> x \<in> {CHR ''_'', CHR '':'', CHR ''/''}"
      using prefix_enc_char [of "''SLASH''" r] by simp
    then obtain x rest where "r = ''SLASH'' @ x # rest" "x \<in> {CHR ''_'', CHR '':'', CHR ''/''}"
      by blast
    with that Cons.prems show False
      by (auto simp: collides_def collisions_def Contains_Cons)
  qed
  show ?case
  proof (cases "c = CHR ''/''")
    case True
    then show ?thesis using IH by (simp add: enc_char_simps enc_colon_simps)
  next
    case False
    note nslash = this
    show ?thesis
    proof (cases "c = CHR '':''")
      case True
      then show ?thesis using IH no_pre by (simp add: enc_char_simps enc_colon_simps)
    next
      case False
      show ?thesis
      proof (cases "c = CHR ''_''")
        case True
        then show ?thesis using IH no_pre by (simp add: enc_char_simps enc_colon_simps)
      next
        case False
        then show ?thesis using IH nslash \<open>c \<noteq> CHR '':''\<close> by (simp add: enc_char_simps enc_colon_simps)
      qed
    qed
  qed
qed

lemma decode_colon:
  assumes "\<not> collides r"
  shows "ReplaceAll (concat (map enc_colon r)) ''_COLON_'' '':'' = r"
  using assms
proof (induction r)
  case Nil
  then show ?case by simp
next
  case (Cons c r)
  from Cons.prems have nc: "\<not> collides r"
    by (auto simp: collides_def collisions_def Contains_Cons)
  note IH = Cons.IH [OF nc]
  have no_pre: "\<not> prefix ''COLON_'' (concat (map enc_colon r))" if "c = CHR ''_''"
  proof
    assume "prefix ''COLON_'' (concat (map enc_colon r))"
    then have "\<exists>x rest. r = ''COLON'' @ x # rest \<and> x \<in> {CHR ''_'', CHR '':''}"
      using prefix_enc_colon [of "''COLON''" r] by simp
    then obtain x rest where "r = ''COLON'' @ x # rest" "x \<in> {CHR ''_'', CHR '':''}"
      by blast
    with that Cons.prems show False
      by (auto simp: collides_def collisions_def Contains_Cons)
  qed
  show ?case
  proof (cases "c = CHR '':''")
    case True
    then show ?thesis using IH by (simp add: enc_colon_simps)
  next
    case False
    show ?thesis
    proof (cases "c = CHR ''_''")
      case True
      then show ?thesis using IH no_pre by (simp add: enc_colon_simps)
    next
      case False
      then show ?thesis using IH \<open>c \<noteq> CHR '':''\<close> by (simp add: enc_colon_simps)
    qed
  qed
qed

lemma Contains_token:
  assumes "CHR ''/'' \<in> set r \<or> CHR '':'' \<in> set r"
  shows "Contains (concat (map enc_char r)) ''_SLASH_'' \<or> Contains (concat (map enc_char r)) ''_COLON_''"
proof -
  from assms obtain c where c: "c \<in> set r" "c = CHR ''/'' \<or> c = CHR '':''" by blast
  then obtain xs ys where r: "r = xs @ c # ys" by (meson split_list)
  have "sublist (enc_char c) (concat (map enc_char r))"
    unfolding r sublist_def by auto
  with c(2) show ?thesis by (auto simp: Contains_sublist enc_char_def)
qed

text \<open>
  C5, as stated, fails. A name that already holds a token is decoded to another name, and
  so is a name without any underscore in which \<open>:\<close> is followed by \<open>SLASH/\<close>: the
  decoder reads the end of \<open>_COLON_\<close> and the start of \<open>_SLASH_\<close> as a token.
\<close>

theorem current_encoding_roundtrip_counterexample:
  "Contains ''docker.io/my_COLON_repo:v1'' ''/'' \<and> Contains ''docker.io/my_COLON_repo:v1'' '':''
   \<and> decodeDirName (encodeNewEncoding ''docker.io/my_COLON_repo:v1'') = ''docker.io/my:repo:v1''
   \<and> decodeDirName (encodeNewEncoding ''docker.io/my_COLON_repo:v1'') \<noteq> ''docker.io/my_COLON_repo:v1''
   \<and> Contains ''repo:SLASH/x'' ''/'' \<and> Contains ''repo:SLASH/x'' '':''
   \<and> decodeDirName (encodeNewEncoding ''repo:SLASH/x'') = ''repo_COLON/SLASH_x''
   \<and> decodeDirName (encodeNewEncoding ''repo:SLASH/x'') \<noteq> ''repo:SLASH/x''"
  by (simp add: decodeDirName_def encodeNewEncoding_def Contains_def Let_def)

text \<open>
  C5 (amended): for every reference string \<open>r\<close> that contains \<open>/\<close> or \<open>:\<close> and none
  of the substrings \<open>_SLASH_\<close>, \<open>_SLASH:\<close>, \<open>_SLASH/\<close>, \<open>:SLASH_\<close>, \<open>:SLASH:\<close>,
  \<open>:SLASH/\<close>, \<open>_COLON_\<close>, \<open>_COLON:\<close>, encoding under the current scheme followed by
  the decode of \<open>ListImages\<close> returns \<open>r\<close> unchanged.
\<close>

theorem current_encoding_roundtrip:
  assumes "Contains r ''/'' \<or> Contains r '':''" and "\<not> collides r"
  shows "decodeDirName (encodeNewEncoding r) = r"
proof -
  from assms(1) have "CHR ''/'' \<in> set r \<or> CHR '':'' \<in> set r" by (simp add: Contains_char)
  from Contains_token [OF this] show ?thesis
    by (simp add: decodeDirName_def encodeNewEncoding_concat decode_slash [OF assms(2)]
        decode_colon [OF assms(2)])
qed

theorem current_encoding_roundtrip_witness:
  "(Contains ''docker.io/library/nginx:latest'' ''/'' \<or> Contains ''docker.io/library/nginx:latest'' '':'')
   \<and> \<not> collides ''docker.io/library/nginx:latest''
   \<and> decodeDirName (encodeNewEncoding ''docker.io/library/nginx:latest'') = ''docker.io/library/nginx:latest''"
proof -
  have h1: "Contains ''docker.io/library/nginx:latest'' ''/'' \<or> Contains ''docker.io/library/nginx:latest'' '':''"
    by (simp add: Contains_def)
  have h2: "\<not> collides ''docker.io/library/nginx:latest''"
    by (simp add: collides_def collisions_def Contains_def)
  from h1 h2 current_encoding_roundtrip [OF h1 h2] show ?thesis by blast
qed

section \<open>C6: the legacy encoding\<close>

lemma old_char_neq: "old_char c \<noteq> CHR ''_'' \<longleftrightarrow> c \<noteq> CHR ''_'' \<and> c \<noteq> CHR '':'' \<and> c \<noteq> CHR ''/''"
  by (simp add: old_char_def)

lemma encodeOldEncoding_map: "encodeOldEncoding r = map old_char r"
  by (induction r) (auto simp: encodeOldEncoding_def ReplaceAll_char_char old_char_def)

lemma decodeOldEncoding_none: "CHR ''_'' \<notin> set d \<Longrightarrow> decodeOldEncoding d = d"
  by (simp add: decodeOldEncoding_def LastIndex_char_none)

lemma decodeOldEncoding_last:
  "CHR ''_'' \<notin> set ys \<Longrightarrow> decodeOldEncoding (xs @ CHR ''_'' # ys) = map old_back xs @ CHR '':'' # ys"
proof -
  have n: "nat (int (length xs) + 1) = Suc (length xs)" by simp
  assume "CHR ''_'' \<notin> set ys"
  then have li: "LastIndex (xs @ CHR ''_'' # ys) ''_'' = int (length xs)"
    by (rule LastIndex_char_last)
  show ?thesis
    unfolding decodeOldEncoding_def Let_def li slice_to_def slice_from_def n
    by (simp add: ReplaceAll_char_char old_back_def)
qed

lemma old_char_fixed: "set s \<inter> {CHR ''_'', CHR '':'', CHR ''/''} = {} \<Longrightarrow> map old_char s = s"
  by (induction s) (auto simp: old_char_def)

lemma old_back_old_char: "set s \<inter> {CHR ''_'', CHR '':''} = {} \<Longrightarrow> map (old_back \<circ> old_char) s = s"
  by (induction s) (auto simp: old_char_def old_back_def)

lemma legacy_roundtrip_plain:
  assumes "set r \<inter> {CHR ''_'', CHR '':'', CHR ''/''} = {}"
  shows "decodeOldEncoding (encodeOldEncoding r) = r"
proof -
  from assms have "CHR ''_'' \<notin> set r" by auto
  then show ?thesis
    by (simp add: encodeOldEncoding_map old_char_fixed [OF assms] decodeOldEncoding_none)
qed

lemma legacy_roundtrip_tagged:
  assumes repo: "set repo \<inter> {CHR ''_'', CHR '':''} = {}"
    and tag: "set tag \<inter> {CHR ''_'', CHR '':'', CHR ''/''} = {}"
  shows "decodeOldEncoding (encodeOldEncoding (repo @ '':'' @ tag)) = repo @ '':'' @ tag"
proof -
  from tag have t: "CHR ''_'' \<notin> set tag" by auto
  have "encodeOldEncoding (repo @ '':'' @ tag) = map old_char repo @ CHR ''_'' # tag"
    by (simp add: encodeOldEncoding_map old_char_fixed [OF tag]) (simp add: old_char_def)
  then show ?thesis
    by (simp add: decodeOldEncoding_last [OF t] old_back_old_char [OF repo])
qed

lemma legacy_roundtrip_only:
  assumes eq: "decodeOldEncoding (encodeOldEncoding r) = r"
  shows "set r \<inter> {CHR ''_'', CHR '':'', CHR ''/''} = {} \<or>
     (\<exists>repo tag. r = repo @ '':'' @ tag \<and> set repo \<inter> {CHR ''_'', CHR '':''} = {}
        \<and> set tag \<inter> {CHR ''_'', CHR '':'', CHR ''/''} = {})"
proof (cases "CHR ''_'' \<in> set (map old_char r)")
  case False
  then have "\<And>c. c \<in> set r \<Longrightarrow> old_char c \<noteq> CHR ''_''"
    by (metis imageI set_map)
  then have "\<And>c. c \<in> set r \<Longrightarrow> c \<noteq> CHR ''_'' \<and> c \<noteq> CHR '':'' \<and> c \<noteq> CHR ''/''"
    using old_char_neq by blast
  then have "set r \<inter> {CHR ''_'', CHR '':'', CHR ''/''} = {}"
    by blast
  then show ?thesis ..
next
  case True
  then obtain xs ys where d: "map old_char r = xs @ CHR ''_'' # ys" and ys: "CHR ''_'' \<notin> set ys"
    by (meson split_list_last)
  from eq have r: "r = map old_back xs @ CHR '':'' # ys"
    by (simp add: encodeOldEncoding_map d decodeOldEncoding_last [OF ys])
  define repo where "repo = map old_back xs"
  have r': "r = repo @ '':'' @ ys" using r by (simp add: repo_def)
  have "map old_char r = map old_char repo @ old_char CHR '':'' # map old_char ys"
    unfolding r' by simp
  with d have e: "map old_char repo @ old_char CHR '':'' # map old_char ys = xs @ CHR ''_'' # ys"
    by simp
  have l: "length (map old_char repo) = length xs" by (simp add: repo_def)
  from e have "map old_char repo = xs \<and> old_char CHR '':'' # map old_char ys = CHR ''_'' # ys"
    unfolding append_eq_append_conv [OF disjI1 [OF l]] .
  then have m1: "map old_char repo = xs" and m2: "map old_char ys = ys"
    by simp_all
  have tag: "set ys \<inter> {CHR ''_'', CHR '':'', CHR ''/''} = {}"
  proof -
    have "c \<noteq> CHR '':'' \<and> c \<noteq> CHR ''/''" if "c \<in> set ys" for c
    proof -
      from that have "old_char c \<in> old_char ` set ys" by (rule imageI)
      also have "old_char ` set ys = set ys" using m2 by (metis set_map)
      finally have "old_char c \<noteq> CHR ''_''" using ys by metis
      then show ?thesis using old_char_neq by blast
    qed
    with ys show ?thesis by blast
  qed
  have "CHR ''_'' \<notin> set repo" by (auto simp: repo_def old_back_def)
  moreover have "CHR '':'' \<notin> set repo"
  proof
    assume "CHR '':'' \<in> set repo"
    then obtain x where x: "x \<in> set xs" "old_back x = CHR '':''" by (auto simp: repo_def)
    then have "x = CHR '':''" by (auto simp: old_back_def split: if_splits)
    with x(1) m1 have "CHR '':'' \<in> set (map old_char repo)" by simp
    then show False by (auto simp: old_char_def split: if_splits)
  qed
  ultimately have "set repo \<inter> {CHR ''_'', CHR '':''} = {}" by auto
  with r' tag show ?thesis by blast
qed

text \<open>
  C6, as stated, fails: these references have no underscore at all, yet a registry host
  with a port, or a reference without a tag, does not come back.
\<close>

theorem legacy_roundtrip_counterexample:
  "CHR ''_'' \<notin> set ''localhost:5000/app:v1''
   \<and> decodeOldEncoding (encodeOldEncoding ''localhost:5000/app:v1'') = ''localhost/5000/app:v1''
   \<and> decodeOldEncoding (encodeOldEncoding ''localhost:5000/app:v1'') \<noteq> ''localhost:5000/app:v1''
   \<and> CHR ''_'' \<notin> set ''docker.io/library/nginx''
   \<and> decodeOldEncoding (encodeOldEncoding ''docker.io/library/nginx'') = ''docker.io/library:nginx''
   \<and> decodeOldEncoding (encodeOldEncoding ''docker.io/library/nginx'') \<noteq> ''docker.io/library/nginx''"
  by (simp add: decodeOldEncoding_def encodeOldEncoding_def slice_to_def slice_from_def Let_def)

text \<open>
  C6 (amended): legacy-encoding \<open>r\<close> and applying the heuristic legacy decode returns
  \<open>r\<close> exactly when \<open>r\<close> holds none of \<open>_\<close>, \<open>:\<close>, \<open>/\<close>, or \<open>r\<close> is
  \<open>repo:tag\<close> where \<open>repo\<close> (registry and repository path) holds neither \<open>_\<close> nor
  \<open>:\<close> and \<open>tag\<close> holds none of \<open>_\<close>, \<open>:\<close>, \<open>/\<close>. For every other reference,
  one with \<open>_\<close> in a repository segment among them, the round trip fails.
\<close>

theorem legacy_roundtrip_iff:
  "decodeOldEncoding (encodeOldEncoding r) = r \<longleftrightarrow>
     set r \<inter> {CHR ''_'', CHR '':'', CHR ''/''} = {} \<or>
     (\<exists>repo tag. r = repo @ '':'' @ tag \<and> set repo \<inter> {CHR ''_'', CHR '':''} = {}
        \<and> set tag \<inter> {CHR ''_'', CHR '':'', CHR ''/''} = {})"
proof
  assume "decodeOldEncoding (encodeOldEncoding r) = r"
  then show "set r \<inter> {CHR ''_'', CHR '':'', CHR ''/''} = {} \<or>
     (\<exists>repo tag. r = repo @ '':'' @ tag \<and> set repo \<inter> {CHR ''_'', CHR '':''} = {}
        \<and> set tag \<inter> {CHR ''_'', CHR '':'', CHR ''/''} = {})"
    by (rule legacy_roundtrip_only)
next
  assume "set r \<inter> {CHR ''_'', CHR '':'', CHR ''/''} = {} \<or>
     (\<exists>repo tag. r = repo @ '':'' @ tag \<and> set repo \<inter> {CHR ''_'', CHR '':''} = {}
        \<and> set tag \<inter> {CHR ''_'', CHR '':'', CHR ''/''} = {})"
  then show "decodeOldEncoding (encodeOldEncoding r) = r"
  proof
    assume "set r \<inter> {CHR ''_'', CHR '':'', CHR ''/''} = {}"
    then show ?thesis by (rule legacy_roundtrip_plain)
  next
    assume "\<exists>repo tag. r = repo @ '':'' @ tag \<and> set repo \<inter> {CHR ''_'', CHR '':''} = {}
        \<and> set tag \<inter> {CHR ''_'', CHR '':'', CHR ''/''} = {}"
    then obtain repo tag where r: "r = repo @ '':'' @ tag"
      and repo: "set repo \<inter> {CHR ''_'', CHR '':''} = {}"
      and tag: "set tag \<inter> {CHR ''_'', CHR '':'', CHR ''/''} = {}" by (elim exE conjE)
    show ?thesis unfolding r using repo tag by (rule legacy_roundtrip_tagged)
  qed
qed

theorem legacy_roundtrip_witness:
  "decodeOldEncoding (encodeOldEncoding ''docker.io/library/nginx:latest'') = ''docker.io/library/nginx:latest''
   \<and> decodeOldEncoding (encodeOldEncoding ''docker.io/my_app/nginx:latest'') \<noteq> ''docker.io/my_app/nginx:latest''"
proof -
  have "''docker.io/library/nginx:latest'' = ''docker.io/library/nginx'' @ '':'' @ ''latest''
      \<and> set ''docker.io/library/nginx'' \<inter> {CHR ''_'', CHR '':''} = {}
      \<and> set ''latest'' \<inter> {CHR ''_'', CHR '':'', CHR ''/''} = {}"
    by simp
  then have "\<exists>repo tag. ''docker.io/library/nginx:latest'' = repo @ '':'' @ tag
      \<and> set repo \<inter> {CHR ''_'', CHR '':''} = {}
      \<and> set tag \<inter> {CHR ''_'', CHR '':'', CHR ''/''} = {}"
    by (intro exI)
  then have a: "decodeOldEncoding (encodeOldEncoding ''docker.io/library/nginx:latest'') = ''docker.io/library/nginx:latest''"
    using legacy_roundtrip_iff [of "''docker.io/library/nginx:latest''"] by (rule_tac iffD2) auto
  have b: "decodeOldEncoding (encodeOldEncoding ''docker.io/my_app/nginx:latest'') \<noteq> ''docker.io/my_app/nginx:latest''"
    by (simp add: decodeOldEncoding_def encodeOldEncoding_def slice_to_def slice_from_def Let_def)
  from a b show ?thesis ..
qed

section \<open>C4 and C10: one retry after an authentication challenge\<close>

lemma doRequest_prepared:
  "doRequest e c method path headers st =
     (case prepared e c method path headers (auth st) of
        Inl err \<Rightarrow> (Inl (''failed to create request: '' @ err), st)
      | Inr req \<Rightarrow>
          (case RoundTrip e (length (sent st)) req of
             Inl err \<Rightarrow> (Inl (''request failed: '' @ err), st\<lparr>sent := sent st @ [req]\<rparr>)
           | Inr resp \<Rightarrow>
               if StatusCode resp \<noteq> 401 then (Inr resp, st\<lparr>sent := sent st @ [req]\<rparr>)
               else (case HandleAuthChallenge e resp (st\<lparr>sent := sent st @ [req]\<rparr>) of
                       (Some err, st2) \<Rightarrow> (Inl (''authentication failed: '' @ err), st2)
                     | (None, st2) \<Rightarrow>
                         (case prepared e c method path headers (auth st2) of
                            Inl err \<Rightarrow> (Inl (''failed to create retry request: '' @ err), st2)
                          | Inr req2 \<Rightarrow>
                              (case RoundTrip e (length (sent st2)) req2 of
                                 Inl err \<Rightarrow> (Inl (''retry request failed: '' @ err),
                                             st2\<lparr>sent := sent st2 @ [req2]\<rparr>)
                               | Inr resp2 \<Rightarrow> (Inr resp2, st2\<lparr>sent := sent st2 @ [req2]\<rparr>))))))"
  unfolding doRequest_def prepared_def Do_def Let_def
  by (simp split: sum.splits prod.splits option.splits)

lemma prepared_auth:
  assumes "prepared e c method path headers a = Inr req1"
  shows "\<exists>req2. prepared e c method path headers a' = Inr req2
           \<and> Method req2 = Method req1 \<and> URL req2 = URL req1 \<and> Body req2 = Body req1
           \<and> (\<forall>k. k \<noteq> ''Authorization'' \<longrightarrow> Header req2 k = Header req1 k)
           \<and> (Token a' \<noteq> [] \<longrightarrow> Header req2 ''Authorization'' = Some (''Bearer '' @ Token a'))"
  using assms unfolding prepared_def
  by (auto simp: Header_Set_def AddAuth_def set_headers_def split: sum.splits)

lemma fetchToken_sent:
  assumes "fetchToken e realm service scope st = (r, st1)"
  shows "auth st1 = auth st \<and>
     (sent st1 = sent st \<or> (\<exists>t. sent st1 = sent st @ [t] \<and> Method t = ''GET''))"
  using assms unfolding fetchToken_def Do_def Let_def NewRequest_def Header_Set_def
  by (auto split: sum.splits if_splits prod.splits)

lemma HandleAuthChallenge_sent:
  assumes "HandleAuthChallenge e resp st = (h, st2)"
  shows "(sent st2 = sent st \<or> (\<exists>t. sent st2 = sent st @ [t] \<and> Method t = ''GET''))
     \<and> Username (auth st2) = Username (auth st) \<and> Password (auth st2) = Password (auth st)
     \<and> (h \<noteq> None \<longrightarrow> auth st2 = auth st)"
proof -
  have hb: "(sent st2 = sent st \<or> (\<exists>t. sent st2 = sent st @ [t] \<and> Method t = ''GET''))
     \<and> Username (auth st2) = Username (auth st) \<and> Password (auth st2) = Password (auth st)
     \<and> (h \<noteq> None \<longrightarrow> auth st2 = auth st)"
    if "handleBearerAuth e hd st = (h, st2)" for hd
  proof (cases "parseAuthHeader hd ''realm''")
    case None
    with that show ?thesis by (simp add: handleBearerAuth_def)
  next
    case (Some realm)
    obtain r st1 where f: "fetchToken e realm
        (case parseAuthHeader hd ''service'' of None \<Rightarrow> [] | Some v \<Rightarrow> v)
        (case parseAuthHeader hd ''scope'' of None \<Rightarrow> [] | Some v \<Rightarrow> v) st = (r, st1)"
      by (cases "fetchToken e realm
        (case parseAuthHeader hd ''service'' of None \<Rightarrow> [] | Some v \<Rightarrow> v)
        (case parseAuthHeader hd ''scope'' of None \<Rightarrow> [] | Some v \<Rightarrow> v) st") auto
    from fetchToken_sent [OF f] that Some f show ?thesis
      by (cases r) (auto simp: handleBearerAuth_def Let_def)
  qed
  show ?thesis
  proof (cases "Header_Get resp ''Www-Authenticate'' \<noteq> [] \<and> HasPrefix (Header_Get resp ''Www-Authenticate'') ''Bearer''")
    case True
    with assms have "handleBearerAuth e (Header_Get resp ''Www-Authenticate'') st = (h, st2)"
      by (simp add: HandleAuthChallenge_def Let_def)
    then show ?thesis by (rule hb)
  next
    case False
    with assms show ?thesis
      unfolding HandleAuthChallenge_def Let_def by (auto split: if_splits)
  qed
qed


lemma doRequest_scripted:
  assumes "url_Parse e (baseURL c @ ''/v2'' @ path) = Inr u"
    and "RoundTrip e = scripted rs"
    and "length (sent st) < length rs"
    and "rs ! length (sent st) = Inr resp"
    and "StatusCode resp \<noteq> 401"
  shows "\<exists>st1. doRequest e c method path headers st = (Inr resp, st1)
           \<and> length (sent st1) = Suc (length (sent st)) \<and> auth st1 = auth st"
  using assms
  by (simp add: doRequest_def NewRequest_def Do_def scripted_def Let_def)

text \<open>
  C4: when the first response to the request of \<open>doRequest\<close> has status 401, challenge
  resolution runs on the state after that request and sends at most one request of its
  own (the token \<open>GET\<close>). If it fails with \<open>err\<close>, \<open>doRequest\<close> returns the error
  \<open>authentication failed: err\<close> and sends nothing more. If it succeeds, the request is
  built again with the authentication state that resolution left: same method, URL and body,
  same headers except \<open>Authorization\<close>, which carries the new token if there is one; it
  is sent once, and \<open>doRequest\<close> returns the
  second response as it is, whatever its status (or the transport's error), with no
  further request.
\<close>

theorem doRequest_retry_once:
  assumes p1: "prepared e c method path headers (auth st) = Inr req1"
    and r1: "RoundTrip e (length (sent st)) req1 = Inr resp1"
    and s1: "StatusCode resp1 = 401"
    and hc: "HandleAuthChallenge e resp1 (st\<lparr>sent := sent st @ [req1]\<rparr>) = (h, st2)"
  shows "(sent st2 = sent st @ [req1] \<or> (\<exists>t. sent st2 = sent st @ [req1, t] \<and> Method t = ''GET''))
     \<and> (\<forall>err. h = Some err \<longrightarrow>
           doRequest e c method path headers st = (Inl (''authentication failed: '' @ err), st2))
     \<and> (h = None \<longrightarrow>
           (\<exists>req2. prepared e c method path headers (auth st2) = Inr req2
              \<and> Method req2 = Method req1 \<and> URL req2 = URL req1 \<and> Body req2 = Body req1
              \<and> (\<forall>k. k \<noteq> ''Authorization'' \<longrightarrow> Header req2 k = Header req1 k)
              \<and> (Token (auth st2) \<noteq> [] \<longrightarrow>
                    Header req2 ''Authorization'' = Some (''Bearer '' @ Token (auth st2)))
              \<and> doRequest e c method path headers st =
                  ((case RoundTrip e (length (sent st2)) req2 of
                      Inl err \<Rightarrow> Inl (''retry request failed: '' @ err)
                    | Inr resp2 \<Rightarrow> Inr resp2),
                   st2\<lparr>sent := sent st2 @ [req2]\<rparr>)))"
proof (intro conjI allI impI)
  from HandleAuthChallenge_sent [OF hc]
  show "sent st2 = sent st @ [req1] \<or> (\<exists>t. sent st2 = sent st @ [req1, t] \<and> Method t = ''GET'')"
    by auto
next
  fix err assume "h = Some err"
  with p1 r1 s1 hc
  show "doRequest e c method path headers st = (Inl (''authentication failed: '' @ err), st2)"
    by (simp add: doRequest_prepared)
next
  assume hn: "h = None"
  from prepared_auth [OF p1, of "auth st2"] obtain req2 where
    p2: "prepared e c method path headers (auth st2) = Inr req2"
    and same: "Method req2 = Method req1" "URL req2 = URL req1" "Body req2 = Body req1"
      "\<forall>k. k \<noteq> ''Authorization'' \<longrightarrow> Header req2 k = Header req1 k"
      "Token (auth st2) \<noteq> [] \<longrightarrow> Header req2 ''Authorization'' = Some (''Bearer '' @ Token (auth st2))"
    by blast
  have "doRequest e c method path headers st =
      ((case RoundTrip e (length (sent st2)) req2 of
          Inl err \<Rightarrow> Inl (''retry request failed: '' @ err)
        | Inr resp2 \<Rightarrow> Inr resp2),
       st2\<lparr>sent := sent st2 @ [req2]\<rparr>)"
    using p1 r1 s1 hc hn p2 by (simp add: doRequest_prepared split: sum.splits)
  with p2 same
  show "\<exists>req2. prepared e c method path headers (auth st2) = Inr req2
              \<and> Method req2 = Method req1 \<and> URL req2 = URL req1 \<and> Body req2 = Body req1
              \<and> (\<forall>k. k \<noteq> ''Authorization'' \<longrightarrow> Header req2 k = Header req1 k)
              \<and> (Token (auth st2) \<noteq> [] \<longrightarrow>
                    Header req2 ''Authorization'' = Some (''Bearer '' @ Token (auth st2)))
              \<and> doRequest e c method path headers st =
                  ((case RoundTrip e (length (sent st2)) req2 of
                      Inl err \<Rightarrow> Inl (''retry request failed: '' @ err)
                    | Inr resp2 \<Rightarrow> Inr resp2),
                   st2\<lparr>sent := sent st2 @ [req2]\<rparr>)"
    by blast
qed

text \<open>
  C10: when the first response has status 401 and no \<open>Www-Authenticate\<close> header,
  challenge handling returns the error \<open>no Www-Authenticate header found\<close> and
  \<open>doRequest\<close> returns an authentication failure; the only request sent is the first.
\<close>

theorem doRequest_missing_challenge:
  assumes p1: "prepared e c method path headers (auth st) = Inr req1"
    and r1: "RoundTrip e (length (sent st)) req1 = Inr resp1"
    and s1: "StatusCode resp1 = 401"
    and nh: "RespHeader resp1 ''Www-Authenticate'' = None"
  shows "HandleAuthChallenge e resp1 (st\<lparr>sent := sent st @ [req1]\<rparr>)
           = (Some ''no Www-Authenticate header found'', st\<lparr>sent := sent st @ [req1]\<rparr>)
     \<and> doRequest e c method path headers st =
           (Inl ''authentication failed: no Www-Authenticate header found'',
            st\<lparr>sent := sent st @ [req1]\<rparr>)"
  using assms
  by (simp add: doRequest_prepared HandleAuthChallenge_def Header_Get_def)


lemma sample_prepared:
  "prepared bearer_env sample_client ''GET'' ''/'' Map.empty (auth anonymous) = Inr first_request"
  by (simp add: prepared_def NewRequest_def bearer_env_def sample_env_def sample_client_def
      anonymous_def set_headers_def AddAuth_def Header_Set_def first_request_def)

lemma sample_params:
  "parseAuthHeader bearer_challenge ''realm'' = Some ''https://auth.example.com/token''"
  "parseAuthHeader bearer_challenge ''service'' = Some ''registry.example.com''"
  "parseAuthHeader bearer_challenge ''scope'' = Some ''repository:library/nginx:pull''"
  by code_simp+

lemma sample_challenge:
  "HandleAuthChallenge bearer_env (unauthorized (Some bearer_challenge))
     (anonymous\<lparr>sent := sent anonymous @ [first_request]\<rparr>)
   = (None, \<lparr>auth = \<lparr>Username = [], Password = [], Token = ''tok123''\<rparr>,
            sent = [first_request, token_request]\<rparr>)"
proof -
  have b: "HasPrefix bearer_challenge ''Bearer''" "bearer_challenge \<noteq> []"
    by (simp_all add: bearer_challenge_def HasPrefix_def)
  have f: "fetchToken bearer_env ''https://auth.example.com/token'' ''registry.example.com''
      ''repository:library/nginx:pull'' (anonymous\<lparr>sent := sent anonymous @ [first_request]\<rparr>)
     = (Inr ''tok123'', \<lparr>auth = \<lparr>Username = [], Password = [], Token = []\<rparr>,
            sent = [first_request, token_request]\<rparr>)"
    by (simp add: fetchToken_def buildTokenURL_def NewRequest_def bearer_env_def sample_env_def
        anonymous_def Do_def scripted_def ok_response_def token_request_def Let_def)
  show ?thesis
    using b by (simp add: HandleAuthChallenge_def unauthorized_def Header_Get_def
        handleBearerAuth_def sample_params f Let_def)
qed

theorem doRequest_retry_once_witness:
  "fst (doRequest bearer_env sample_client ''GET'' ''/'' Map.empty anonymous)
     = Inr (unauthorized (Some bearer_challenge))
   \<and> length (sent (snd (doRequest bearer_env sample_client ''GET'' ''/'' Map.empty anonymous))) = 3
   \<and> Header (last (sent (snd (doRequest bearer_env sample_client ''GET'' ''/'' Map.empty anonymous))))
        ''Authorization'' = Some ''Bearer tok123''"
proof -
  have r1: "RoundTrip bearer_env (length (sent anonymous)) first_request
      = Inr (unauthorized (Some bearer_challenge))"
    by (simp add: bearer_env_def sample_env_def scripted_def anonymous_def)
  have s1: "StatusCode (unauthorized (Some bearer_challenge)) = 401"
    by (simp add: unauthorized_def)
  have r2: "RoundTrip bearer_env (Suc (Suc 0)) req2 = Inr (unauthorized (Some bearer_challenge))" for req2
    by (simp add: bearer_env_def sample_env_def scripted_def)
  let ?st2 = "\<lparr>auth = \<lparr>Username = [], Password = [], Token = ''tok123''\<rparr>,
              sent = [first_request, token_request]\<rparr>"
  note th = doRequest_retry_once [OF sample_prepared r1 s1 sample_challenge]
  from th have "\<exists>req2. (Token (auth ?st2) \<noteq> [] \<longrightarrow>
        Header req2 ''Authorization'' = Some (''Bearer '' @ Token (auth ?st2)))
      \<and> doRequest bearer_env sample_client ''GET'' ''/'' Map.empty anonymous =
      ((case RoundTrip bearer_env (length (sent ?st2)) req2 of
          Inl err \<Rightarrow> Inl (''retry request failed: '' @ err) | Inr resp2 \<Rightarrow> Inr resp2),
       ?st2\<lparr>sent := sent ?st2 @ [req2]\<rparr>)"
    by blast
  then obtain req2 where
    b: "Token (auth ?st2) \<noteq> [] \<longrightarrow> Header req2 ''Authorization'' = Some (''Bearer '' @ Token (auth ?st2))"
    and d: "doRequest bearer_env sample_client ''GET'' ''/'' Map.empty anonymous =
      ((case RoundTrip bearer_env (length (sent ?st2)) req2 of
          Inl err \<Rightarrow> Inl (''retry request failed: '' @ err) | Inr resp2 \<Rightarrow> Inr resp2),
       ?st2\<lparr>sent := sent ?st2 @ [req2]\<rparr>)"
    by (elim exE conjE)
  from b have "Header req2 ''Authorization'' = Some ''Bearer tok123''" by simp
  with d show ?thesis by (simp add: r2)
qed

theorem doRequest_missing_challenge_witness:
  "doRequest (sample_env\<lparr>RoundTrip := scripted [Inr (unauthorized None)]\<rparr>) sample_client ''GET'' ''/''
      Map.empty anonymous
   = (Inl ''authentication failed: no Www-Authenticate header found'',
      \<lparr>auth = \<lparr>Username = [], Password = [], Token = []\<rparr>, sent = [first_request]\<rparr>)"
proof -
  let ?e = "sample_env\<lparr>RoundTrip := scripted [Inr (unauthorized None)]\<rparr>"
  have p: "prepared ?e sample_client ''GET'' ''/'' Map.empty (auth anonymous) = Inr first_request"
    by (simp add: prepared_def NewRequest_def sample_env_def sample_client_def
      anonymous_def set_headers_def AddAuth_def Header_Set_def first_request_def)
  have r1: "RoundTrip ?e (length (sent anonymous)) first_request = Inr (unauthorized None)"
    by (simp add: scripted_def anonymous_def)
  have s1: "StatusCode (unauthorized None) = 401" by (simp add: unauthorized_def)
  have nh: "RespHeader (unauthorized None) ''Www-Authenticate'' = None" by (simp add: unauthorized_def)
  from doRequest_missing_challenge [OF p r1 s1 nh] show ?thesis
    by (simp add: anonymous_def)
qed

section \<open>C9: finding and removing an image directory\<close>







section \<open>C3: resolving a manifest list\<close>

lemma GetManifest_select_None:
  "GetManifest_select ms = None \<longleftrightarrow> (\<forall>x\<in>set ms. \<not> amd64_linux x)"
  by (induction ms) (auto simp: amd64_linux_def)

lemma GetManifest_select_first:
  assumes "ms = pre @ m # post" "amd64_linux m" "\<forall>x\<in>set pre. \<not> amd64_linux x"
  shows "GetManifest_select ms = Some m"
  using assms by (induction pre arbitrary: ms) (auto simp: amd64_linux_def)

lemma GetManifest_step:
  assumes "doRequest e c ''GET'' (''/'' @ name @ ''/manifests/'' @ reference) manifest_Accept st
             = (Inr resp, st1)"
    and "StatusCode resp = 200"
    and "decodeManifest e (RespBody resp) = Inr manifest"
  shows "GetManifest e c name reference st =
     (if indicates_list manifest resp
      then (case GetManifest_select (Manifests manifest) of
              Some m \<Rightarrow> GetManifest e c name (me_Digest m) st1
            | None \<Rightarrow> Some (Inl ''no amd64 manifest found in manifest list'', st1))
      else Some (Inr manifest, st1))"
  using assms
  by (subst GetManifest.simps) (auto simp: Let_def indicates_list_def list_types_def)

text \<open>
  C3: when the request of \<open>GetManifest\<close> is answered with status 200 and a body that
  decodes, then: a result that neither its \<open>mediaType\<close> nor the \<open>Content-Type\<close> marks as
  a manifest list or OCI image index is returned as it is; a list without any entry for
  \<open>amd64\<close>/\<open>linux\<close> fails with \<open>no amd64 manifest found in manifest list\<close>, in the
  state the request left (nothing else is tried); and for a list, \<open>GetManifest\<close> is
  \<open>GetManifest\<close> on the digest of the first entry, in the order of \<open>manifests\<close>, whose
  platform is \<open>amd64\<close>/\<open>linux\<close>.
\<close>

theorem GetManifest_resolution:
  assumes "doRequest e c ''GET'' (''/'' @ name @ ''/manifests/'' @ reference) manifest_Accept st
             = (Inr resp, st1)"
    and "StatusCode resp = 200"
    and "decodeManifest e (RespBody resp) = Inr manifest"
  shows "(\<not> indicates_list manifest resp \<longrightarrow>
            GetManifest e c name reference st = Some (Inr manifest, st1))
     \<and> (indicates_list manifest resp \<longrightarrow> (\<forall>x\<in>set (Manifests manifest). \<not> amd64_linux x) \<longrightarrow>
            GetManifest e c name reference st
              = Some (Inl ''no amd64 manifest found in manifest list'', st1))
     \<and> (indicates_list manifest resp \<longrightarrow>
          (\<forall>pre m post. Manifests manifest = pre @ m # post \<longrightarrow> amd64_linux m \<longrightarrow>
              (\<forall>x\<in>set pre. \<not> amd64_linux x) \<longrightarrow>
              GetManifest e c name reference st = GetManifest e c name (me_Digest m) st1))"
proof (intro conjI impI allI)
  note step = GetManifest_step [OF assms]
  show "GetManifest e c name reference st = Some (Inr manifest, st1)"
    if "\<not> indicates_list manifest resp"
    using that by (simp add: step)
  show "GetManifest e c name reference st
      = Some (Inl ''no amd64 manifest found in manifest list'', st1)"
    if "indicates_list manifest resp" "\<forall>x\<in>set (Manifests manifest). \<not> amd64_linux x"
    using that GetManifest_select_None [of "Manifests manifest"] by (simp add: step)
  show "GetManifest e c name reference st = GetManifest e c name (me_Digest m) st1"
    if "indicates_list manifest resp" "Manifests manifest = pre @ m # post" "amd64_linux m"
      "\<forall>x\<in>set pre. \<not> amd64_linux x" for pre m post
    using that GetManifest_select_first [of "Manifests manifest" pre m post] by (simp add: step)
qed

theorem GetManifest_resolution_witness:
  "map_option fst (GetManifest list_env sample_client ''library/nginx'' ''latest'' anonymous)
     = Some (Inr image_manifest)"
proof -
  have env: "RoundTrip list_env = scripted
        [Inr (ok_response ''application/vnd.docker.distribution.manifest.list.v2+json'' ''LIST''),
         Inr (ok_response ''application/vnd.docker.distribution.manifest.v2+json'' ''IMAGE'')]"
    and parse: "\<And>s. s \<noteq> [] \<Longrightarrow> url_Parse list_env s = Inr \<lparr>Rest = s, RawQuery = []\<rparr>"
    and dec: "decodeManifest list_env ''LIST'' = Inr list_manifest"
      "decodeManifest list_env ''IMAGE'' = Inr image_manifest"
    by (simp_all add: list_env_def sample_env_def)
  let ?r1 = "ok_response ''application/vnd.docker.distribution.manifest.list.v2+json'' ''LIST''"
  let ?r2 = "ok_response ''application/vnd.docker.distribution.manifest.v2+json'' ''IMAGE''"
  have "\<exists>st1. doRequest list_env sample_client ''GET''
        (''/'' @ ''library/nginx'' @ ''/manifests/'' @ ''latest'') manifest_Accept anonymous = (Inr ?r1, st1)
        \<and> length (sent st1) = Suc (length (sent anonymous)) \<and> auth st1 = auth anonymous"
  proof (rule doRequest_scripted [OF parse env])
    show "baseURL sample_client @ ''/v2'' @ ''/'' @ ''library/nginx'' @ ''/manifests/'' @ ''latest'' \<noteq> []"
      by simp
  qed (simp_all add: anonymous_def ok_response_def)
  then obtain st1 where d1: "doRequest list_env sample_client ''GET''
        (''/'' @ ''library/nginx'' @ ''/manifests/'' @ ''latest'') manifest_Accept anonymous = (Inr ?r1, st1)"
    and l1: "length (sent st1) = Suc (length (sent anonymous))"
    by (elim exE conjE)
  from l1 have l1': "length (sent st1) = Suc 0" by (simp add: anonymous_def)
  have "\<exists>st2. doRequest list_env sample_client ''GET''
        (''/'' @ ''library/nginx'' @ ''/manifests/'' @ ''sha256:ccc'') manifest_Accept st1 = (Inr ?r2, st2)
        \<and> length (sent st2) = Suc (length (sent st1)) \<and> auth st2 = auth st1"
  proof (rule doRequest_scripted [OF parse env])
    show "baseURL sample_client @ ''/v2'' @ ''/'' @ ''library/nginx'' @ ''/manifests/'' @ ''sha256:ccc'' \<noteq> []"
      by simp
  qed (simp_all add: l1' ok_response_def)
  then obtain st2 where d2: "doRequest list_env sample_client ''GET''
        (''/'' @ ''library/nginx'' @ ''/manifests/'' @ ''sha256:ccc'') manifest_Accept st1 = (Inr ?r2, st2)"
    by (elim exE conjE)
  have s: "StatusCode ?r1 = 200" "StatusCode ?r2 = 200" "RespBody ?r1 = ''LIST''" "RespBody ?r2 = ''IMAGE''"
    by (simp_all add: ok_response_def)
  have il: "indicates_list list_manifest ?r1" "\<not> indicates_list image_manifest ?r2"
    by (simp_all add: indicates_list_def list_types_def list_manifest_def image_manifest_def
        ok_response_def Header_Get_def)
  have split: "Manifests list_manifest =
      [entry ''arm64'' ''linux'' ''sha256:aaa'', entry ''amd64'' ''windows'' ''sha256:bbb'']
        @ entry ''amd64'' ''linux'' ''sha256:ccc'' # [entry ''amd64'' ''linux'' ''sha256:ddd'']"
    and m: "amd64_linux (entry ''amd64'' ''linux'' ''sha256:ccc'')"
    and pre: "\<forall>x\<in>set [entry ''arm64'' ''linux'' ''sha256:aaa'', entry ''amd64'' ''windows'' ''sha256:bbb'']. \<not> amd64_linux x"
    and dg: "me_Digest (entry ''amd64'' ''linux'' ''sha256:ccc'') = ''sha256:ccc''"
    by (simp_all add: list_manifest_def amd64_linux_def entry_def)
  from GetManifest_resolution [OF d1 s(1), of list_manifest] dec(1) s(3) il(1) split m pre dg
  have "GetManifest list_env sample_client ''library/nginx'' ''latest'' anonymous
      = GetManifest list_env sample_client ''library/nginx'' ''sha256:ccc'' st1"
    by metis
  also from GetManifest_resolution [OF d2 s(2), of image_manifest] dec(2) s(4) il(2)
  have "\<dots> = Some (Inr image_manifest, st2)"
    by metis
  finally show ?thesis by simp
qed

section \<open>C2: the manifest bytes that a pull stores\<close>

lemma doRequest_last:
  assumes "doRequest e c method path headers st = (Inr resp, st1)"
  shows "last_response e st1 resp"
proof -
  have *: "last_response e (s\<lparr>sent := sent s @ [req]\<rparr>) r" if "RoundTrip e (length (sent s)) req = Inr r"
    for s req r
    using that by (simp add: last_response_def)
  from assms show ?thesis
    unfolding doRequest_prepared
    by (auto split: sum.splits if_splits prod.splits option.splits intro: *)
qed

lemma GetManifestRaw_last:
  assumes "GetManifestRaw e c name reference st = (Inr (body, contentType), st1)"
  shows "\<exists>resp. last_response e st1 resp \<and> StatusCode resp = 200
           \<and> body = RespBody resp \<and> contentType = Header_Get resp ''Content-Type''"
  using assms unfolding GetManifestRaw_def Let_def
  by (auto split: sum.splits if_splits prod.splits dest: doRequest_last)

lemma SaveManifestRaw_written:
  assumes "SaveManifestRaw l imageName data f = (None, f1)"
  shows "nodes f1 (GetManifestPath l imageName) = Some (File data)"
  using assms unfolding SaveManifestRaw_def CreateImageDir_def os_WriteFile_def Let_def
  by (auto split: option.splits prod.splits if_splits)

lemma oci_body_converted:
  "ReplaceAll
     (ReplaceAll
        (ReplaceAll oci_body ''application/vnd.oci.image.config.v1+json''
           ''application/vnd.docker.container.image.v1+json'')
        ''application/vnd.oci.image.layer.v1.tar+gzip''
        ''application/vnd.docker.image.rootfs.diff.tar.gzip'')
     ''application/vnd.oci.image.manifest.v1+json''
     ''application/vnd.docker.distribution.manifest.v2+json'' = docker_body"
  by code_simp

lemma sample_save:
  "fst (SaveManifestRaw sample_layout ''alpine:latest'' data empty_store) = None
   \<and> nodes (snd (SaveManifestRaw sample_layout ''alpine:latest'' data empty_store))
        (GetManifestPath sample_layout ''alpine:latest'') = Some (File data)"
  by (simp add: SaveManifestRaw_def CreateImageDir_def os_MkdirAll_def os_WriteFile_def
      GetManifestPath_def GetLayersDir_def GetImageDir_def encodeNewEncoding_def
      sample_layout_def empty_store_def Let_def)

lemma sample_pull:
  assumes env: "RoundTrip e = scripted [Inr (ok_response ct body)]"
    and parse: "url_Parse e = url_Parse sample_env"
    and notlist: "ct \<notin> set list_types"
  shows "\<exists>st1 f1. pull_manifest e sample_client sample_layout ''library/alpine'' ''latest''
            ''alpine:latest'' anonymous empty_store = (Completed, st1, f1)
     \<and> last_response e st1 (ok_response ct body)
     \<and> nodes f1 (GetManifestPath sample_layout ''alpine:latest'')
         = Some (File (if ct = oci_manifest_type then oci_to_docker body else body))"
proof -
  let ?resp = "ok_response ct body"
  let ?data = "if ct = oci_manifest_type then oci_to_docker body else body"
  have p: "url_Parse e (baseURL sample_client @ ''/v2'' @ ''/'' @ ''library/alpine'' @ ''/manifests/'' @ ''latest'')
      = Inr \<lparr>Rest = baseURL sample_client @ ''/v2'' @ ''/'' @ ''library/alpine'' @ ''/manifests/'' @ ''latest'',
             RawQuery = []\<rparr>"
    by (simp add: parse sample_env_def)
  have "\<exists>st1. doRequest e sample_client ''GET''
        (''/'' @ ''library/alpine'' @ ''/manifests/'' @ ''latest'') manifest_Accept anonymous = (Inr ?resp, st1)
        \<and> length (sent st1) = Suc (length (sent anonymous)) \<and> auth st1 = auth anonymous"
    by (rule doRequest_scripted [OF p env]) (simp_all add: anonymous_def ok_response_def)
  then obtain st1 where d: "doRequest e sample_client ''GET''
        (''/'' @ ''library/alpine'' @ ''/manifests/'' @ ''latest'') manifest_Accept anonymous = (Inr ?resp, st1)"
    and l1: "length (sent st1) = Suc (length (sent anonymous))"
    by (elim exE conjE)
  from l1 have l1': "length (sent st1) = Suc 0" by (simp add: anonymous_def)
  then have ne: "sent st1 \<noteq> []" by auto
  have lr: "last_response e st1 ?resp"
    using ne by (simp add: last_response_def env scripted_def l1')
  have g: "GetManifestRaw e sample_client ''library/alpine'' ''latest'' anonymous
      = (Inr (body, ct), st1)"
    using d by (simp add: GetManifestRaw_def Let_def ok_response_def Header_Get_def)
  obtain f1 where sv: "SaveManifestRaw sample_layout ''alpine:latest'' ?data empty_store = (None, f1)"
    and written: "nodes f1 (GetManifestPath sample_layout ''alpine:latest'') = Some (File ?data)"
    using sample_save [of ?data]
    by (cases "SaveManifestRaw sample_layout ''alpine:latest'' ?data empty_store") auto
  have "pull_manifest e sample_client sample_layout ''library/alpine'' ''latest''
            ''alpine:latest'' anonymous empty_store = (Completed, st1, f1)"
  proof (cases "ct = oci_manifest_type")
    case True
    with notlist sv show ?thesis
      by (simp add: pull_manifest_def g Let_def list_types_def oci_manifest_type_def oci_to_docker_def)
  next
    case False
    with notlist sv show ?thesis
      by (simp add: pull_manifest_def g Let_def list_types_def oci_manifest_type_def)
  qed
  with lr written show ?thesis by blast
qed

text \<open>
  C2, as stated ("for every content type"), fails: a manifest served with content type
  \<open>application/vnd.oci.image.manifest.v1+json\<close> is stored with its OCI media types
  replaced by Docker's, so the stored bytes are not the bytes received.
\<close>

theorem pull_manifest_stored_counterexample:
  "last_response oci_env
      (fst (snd (pull_manifest oci_env sample_client sample_layout ''library/alpine'' ''latest''
            ''alpine:latest'' anonymous empty_store)))
      (ok_response oci_manifest_type oci_body)
   \<and> fst (pull_manifest oci_env sample_client sample_layout ''library/alpine'' ''latest''
            ''alpine:latest'' anonymous empty_store) = Completed
   \<and> nodes (snd (snd (pull_manifest oci_env sample_client sample_layout ''library/alpine''
            ''latest'' ''alpine:latest'' anonymous empty_store)))
        (GetManifestPath sample_layout ''alpine:latest'')
       = Some (File docker_body)
   \<and> docker_body \<noteq> oci_body"
proof -
  have conv: "oci_to_docker oci_body = docker_body"
    by (simp add: oci_to_docker_def oci_body_converted)
  have ne2: "docker_body \<noteq> oci_body" by (simp add: docker_body_def oci_body_def)
  have "oci_manifest_type \<notin> set list_types" by (simp add: oci_manifest_type_def list_types_def)
  from sample_pull [OF _ _ this, of oci_env oci_body] conv ne2
  show ?thesis by (auto simp: oci_env_def)
qed

text \<open>
  C2 (amended): when the last part of \<open>pullCmd\<close> completes, the bytes in
  \<open>manifest.json\<close> are the body of the last response received from the registry (status
  200: the manifest of the tag, or the platform manifest fetched by digest), byte for byte,
  unless the content type of that response is \<open>application/vnd.oci.image.manifest.v1+json\<close>:
  then they are that body with every occurrence of the three OCI media type strings
  replaced. Nothing is re-derived from a parsed struct.
\<close>

theorem pull_manifest_stored:
  assumes "pull_manifest e c l name tag imageRef st f = (Completed, st', f')"
  shows "\<exists>resp. last_response e st' resp \<and> StatusCode resp = 200
     \<and> nodes f' (GetManifestPath l imageRef) =
         Some (File (if Header_Get resp ''Content-Type'' = oci_manifest_type
                     then oci_to_docker (RespBody resp) else RespBody resp))"
proof -
  obtain r0 st1 where g: "GetManifestRaw e c name tag st = (r0, st1)" by fastforce
  from assms g obtain raw0 ct0 where r0: "r0 = Inr (raw0, ct0)"
    by (cases r0) (auto simp: pull_manifest_def)
  note g0 = g [unfolded r0]
  define platform where "platform =
     (if ct0 = ''application/vnd.docker.distribution.manifest.list.v2+json''
           \<or> ct0 = ''application/vnd.oci.image.index.v1+json''
      then (case decodeIndex e raw0 of Inl err \<Rightarrow> None | Inr manifests \<Rightarrow> pull_select manifests)
      else None)"
  obtain r1 st2 where s: "(case platform of None \<Rightarrow> (Inr (raw0, ct0), st1)
      | Some m \<Rightarrow> GetManifestRaw e c name (me_Digest m) st1) = (r1, st2)" by fastforce
  have unf: "pull_manifest e c l name tag imageRef st f =
     (case r1 of
        Inl err \<Rightarrow> (Exit (''Error: Failed to get platform manifest: '' @ err @ [CHR 0x0A]), st2, f)
      | Inr (raw1, ct) \<Rightarrow>
          (case SaveManifestRaw l imageRef
                  (if ct = oci_manifest_type then oci_to_docker raw1 else raw1) f of
             (Some err, f1) \<Rightarrow> (Exit (''Error: Failed to save manifest: '' @ err @ [CHR 0x0A]), st2, f1)
           | (None, f1) \<Rightarrow> (Completed, st2, f1)))"
    unfolding pull_manifest_def g0 Let_def
    using s [unfolded platform_def]
    by (simp add: oci_manifest_type_def oci_to_docker_def split: sum.splits prod.splits)
  from assms unf obtain raw1 ct where r1: "r1 = Inr (raw1, ct)"
    by (cases r1) auto
  from assms have st': "st' = st2"
    and save: "SaveManifestRaw l imageRef
        (if ct = oci_manifest_type then oci_to_docker raw1 else raw1) f = (None, f')"
    unfolding unf r1 by (auto split: prod.splits option.splits)
  have "\<exists>resp. last_response e st' resp \<and> StatusCode resp = 200
           \<and> raw1 = RespBody resp \<and> ct = Header_Get resp ''Content-Type''"
  proof (cases platform)
    case None
    with s r1 st' have "raw1 = raw0" "ct = ct0" "st' = st1" by simp_all
    with GetManifestRaw_last [OF g0] show ?thesis by simp
  next
    case (Some m)
    with s r1 st' have "GetManifestRaw e c name (me_Digest m) st1 = (Inr (raw1, ct), st')"
      by simp
    from GetManifestRaw_last [OF this] show ?thesis .
  qed
  then obtain resp where "last_response e st' resp" "StatusCode resp = 200"
    "raw1 = RespBody resp" "ct = Header_Get resp ''Content-Type''" by (elim exE conjE)
  with SaveManifestRaw_written [OF save] show ?thesis by auto
qed

theorem pull_manifest_stored_witness:
  "fst (pull_manifest docker_env sample_client sample_layout ''library/alpine'' ''latest''
            ''alpine:latest'' anonymous empty_store) = Completed
   \<and> nodes (snd (snd (pull_manifest docker_env sample_client sample_layout ''library/alpine''
            ''latest'' ''alpine:latest'' anonymous empty_store)))
        (GetManifestPath sample_layout ''alpine:latest'')
       = Some (File docker_body)"
proof -
  let ?ct = "''application/vnd.docker.distribution.manifest.v2+json''"
  have nl: "?ct \<notin> set list_types" by (simp add: list_types_def)
  have env: "RoundTrip docker_env = scripted [Inr (ok_response ?ct docker_body)]"
    by (simp add: docker_env_def)
  from sample_pull [OF env _ nl] obtain st1 f1 where
    pm: "pull_manifest docker_env sample_client sample_layout ''library/alpine'' ''latest''
            ''alpine:latest'' anonymous empty_store = (Completed, st1, f1)"
    and lr: "last_response docker_env st1 (ok_response ?ct docker_body)"
    by (auto simp: docker_env_def)
  from pull_manifest_stored [OF pm] obtain resp where
    r: "last_response docker_env st1 resp"
    and n: "nodes f1 (GetManifestPath sample_layout ''alpine:latest'') =
         Some (File (if Header_Get resp ''Content-Type'' = oci_manifest_type
                     then oci_to_docker (RespBody resp) else RespBody resp))"
    by blast
  from r lr have "resp = ok_response ?ct docker_body" by (simp add: last_response_def)
  with n have "nodes f1 (GetManifestPath sample_layout ''alpine:latest'') = Some (File docker_body)"
    by (simp add: ok_response_def Header_Get_def oci_manifest_type_def)
  with pm show ?thesis by simp
qed

section \<open>C7: an upload that the registry rejects because the blob exists\<close>

lemma blobExistsError_markers: "blobExistsError err \<longleftrightarrow> (\<exists>m\<in>set exists_markers. Contains err m)"
  by (simp add: blobExistsError_def exists_markers_def)

lemma Contains_append: "Contains b m \<Longrightarrow> Contains (a @ b) m"
proof -
  assume "Contains b m"
  then obtain ps ss where "b = ps @ m @ ss" by (auto simp: Contains_sublist sublist_def)
  then have "a @ b = (a @ ps) @ m @ ss" by simp
  then show ?thesis unfolding Contains_sublist sublist_def by blast
qed

lemma prepared_Method: "prepared e c m p hs a = Inr req \<Longrightarrow> Method req = m"
  by (auto simp: prepared_def NewRequest_def Header_Set_def AddAuth_def set_headers_def
      split: sum.splits if_splits)

lemma doRequest_sent:
  assumes "doRequest e c m p hs st = (r, st1)"
  shows "\<exists>new. sent st1 = sent st @ new \<and> (\<forall>q\<in>set new. Method q = m \<or> Method q = ''GET'')"
proof (cases "prepared e c m p hs (auth st)")
  case (Inl err)
  with assms show ?thesis by (simp add: doRequest_prepared)
next
  case (Inr req)
  note m1 = prepared_Method [OF Inr]
  show ?thesis
  proof (cases "RoundTrip e (length (sent st)) req")
    case (Inl err)
    with assms Inr m1 show ?thesis by (auto simp: doRequest_prepared)
  next
    case r1: (Inr resp)
    show ?thesis
    proof (cases "StatusCode resp = 401")
      case False
      with assms Inr r1 m1 show ?thesis by (auto simp: doRequest_prepared)
    next
      case True
      obtain h st2 where hc: "HandleAuthChallenge e resp (st\<lparr>sent := sent st @ [req]\<rparr>) = (h, st2)"
        by fastforce
      from HandleAuthChallenge_sent [OF hc]
      have s2: "sent st2 = sent st @ [req] \<or> (\<exists>t. sent st2 = sent st @ [req, t] \<and> Method t = ''GET'')"
        by auto
      show ?thesis
      proof (cases h)
        case (Some err)
        with assms Inr r1 True hc have "st1 = st2" by (simp add: doRequest_prepared)
        with s2 m1 show ?thesis by auto
      next
        case None
        show ?thesis
        proof (cases "prepared e c m p hs (auth st2)")
          case (Inl err)
          with assms Inr r1 True hc None have "st1 = st2" by (simp add: doRequest_prepared)
          with s2 m1 show ?thesis by auto
        next
          case p2: (Inr req2)
          note m2 = prepared_Method [OF p2]
          from assms Inr r1 True hc None p2 have "sent st1 = sent st2 @ [req2]"
            by (auto simp: doRequest_prepared split: sum.splits)
          with s2 m1 m2 show ?thesis by auto
        qed
      qed
    qed
  qed
qed

lemma StartBlobUpload_sent:
  assumes "StartBlobUpload e c name st = (r, st1)"
  shows "\<exists>new. sent st1 = sent st @ new \<and> (\<forall>q\<in>set new. Method q \<noteq> ''PUT'')"
proof -
  obtain r0 st0 where d: "doRequest e c ''POST'' (''/'' @ name @ ''/blobs/uploads/'') Map.empty st = (r0, st0)"
    by fastforce
  with assms have "st1 = st0"
    by (auto simp: StartBlobUpload_def Let_def split: sum.splits if_splits)
  with doRequest_sent [OF d] show ?thesis by fastforce
qed

lemma UploadBlobMonolithic_sent:
  assumes "NewRequest e ''PUT'' u content = Inr req0"
    and "UploadBlobMonolithic e u content sz digest st = (r, st1)"
  shows "\<exists>req. sent st1 = sent st @ [req] \<and> Method req = ''PUT''
          \<and> r = (case RoundTrip e (length (sent st)) req of
                   Inl err \<Rightarrow> Some (''request failed: '' @ err)
                 | Inr resp \<Rightarrow>
                     if StatusCode resp \<noteq> 201
                     then Some (''unexpected status code '' @ Itoa (StatusCode resp) @ '': ''
                                 @ RespBody resp)
                     else None)"
proof -
  note Inr = assms(1)
  from Inr have m0: "Method req0 = ''PUT''"
    by (auto simp: NewRequest_def split: sum.splits)
  define req1 where "req1 = (Header_Set (Header_Set req0 ''Content-Type'' ''application/octet-stream'')
      ''Content-Length'' (Itoa sz))\<lparr>ContentLength := sz\<rparr>"
  define req2 where "req2 = (if RawQuery (URL req1) \<noteq> []
      then req1\<lparr>URL := (URL req1)\<lparr>RawQuery := RawQuery (URL req1) @ ''&digest='' @ digest\<rparr>\<rparr>
      else req1\<lparr>URL := (URL req1)\<lparr>RawQuery := ''digest='' @ digest\<rparr>\<rparr>)"
  define req where "req = Header_Set (AddAuth (auth st) req2)
      ''Docker-Distribution-API-Version'' ''registry/2.0''"
  have m: "Method req = ''PUT''"
    by (simp add: req_def req2_def req1_def Header_Set_def AddAuth_def m0)
  have unf: "UploadBlobMonolithic e u content sz digest st =
     (case Do e req st of
        (Inl err, st1) \<Rightarrow> (Some (''request failed: '' @ err), st1)
      | (Inr resp, st1) \<Rightarrow>
          if StatusCode resp \<noteq> 201
          then (Some (''unexpected status code '' @ Itoa (StatusCode resp) @ '': ''
                       @ RespBody resp), st1)
          else (None, st1))"
    unfolding UploadBlobMonolithic_def Inr Let_def req_def req2_def req1_def by simp
  from assms(2) have "sent st1 = sent st @ [req] \<and>
      r = (case RoundTrip e (length (sent st)) req of
                   Inl err \<Rightarrow> Some (''request failed: '' @ err)
                 | Inr resp \<Rightarrow>
                     if StatusCode resp \<noteq> 201
                     then Some (''unexpected status code '' @ Itoa (StatusCode resp) @ '': ''
                                 @ RespBody resp)
                     else None)"
    unfolding unf Do_def by (auto split: sum.splits if_splits)
  with m show ?thesis by blast
qed

lemma UploadBlobMonolithic_cases:
  assumes "UploadBlobMonolithic e u content sz digest st = (r, st1)"
  shows "(sent st1 = sent st \<and> (\<exists>err. r = Some (''failed to create request: '' @ err)))
     \<or> (\<exists>req. sent st1 = sent st @ [req] \<and> Method req = ''PUT''
          \<and> r = (case RoundTrip e (length (sent st)) req of
                   Inl err \<Rightarrow> Some (''request failed: '' @ err)
                 | Inr resp \<Rightarrow>
                     if StatusCode resp \<noteq> 201
                     then Some (''unexpected status code '' @ Itoa (StatusCode resp) @ '': ''
                                 @ RespBody resp)
                     else None))"
proof (cases "NewRequest e ''PUT'' u content")
  case (Inl err)
  with assms have "sent st1 = sent st" "r = Some (''failed to create request: '' @ err)"
    by (auto simp: UploadBlobMonolithic_def)
  then show ?thesis by blast
next
  case (Inr req0)
  from UploadBlobMonolithic_sent [OF this assms] show ?thesis by blast
qed

lemma UploadBlob_rejected:
  assumes up: "UploadBlob e f c name digest src st = (r, st')"
    and more: "length (sent st) < length (sent st')"
    and put: "Method (last (sent st')) = ''PUT''"
    and resp: "last_response e st' resp"
    and status: "StatusCode resp \<noteq> 201"
  shows "r = Some (''failed to upload blob: unexpected status code '' @ Itoa (StatusCode resp)
                    @ '': '' @ RespBody resp)"
proof -
  from up more obtain content where rf: "os_ReadFile f src = Inr content"
    by (cases "os_ReadFile f src") (auto simp: UploadBlob_def)
  from up more rf have nf: "fault f ''fstat'' src = None"
    by (cases "fault f ''fstat'' src") (auto simp: UploadBlob_def)
  obtain r1 st1 where sb: "StartBlobUpload e c name st = (r1, st1)" by fastforce
  from StartBlobUpload_sent [OF sb] obtain new where
    new: "sent st1 = sent st @ new" "\<forall>q\<in>set new. Method q \<noteq> ''PUT''" by blast
  show ?thesis
  proof (cases r1)
    case (Inl err)
    with up rf nf sb have "st' = st1" by (simp add: UploadBlob_def)
    with new more put have False by (cases new rule: rev_cases) auto
    then show ?thesis ..
  next
    case (Inr uploadURL)
    obtain r2 st2 where um: "UploadBlobMonolithic e uploadURL content (int (length content)) digest st1 = (r2, st2)"
      by fastforce
    from up rf nf sb Inr um have st': "st' = st2"
      and r: "r = (case r2 of Some err \<Rightarrow> Some (''failed to upload blob: '' @ err) | None \<Rightarrow> None)"
      by (auto simp: UploadBlob_def split: option.splits)
    from UploadBlobMonolithic_cases [OF um] show ?thesis
    proof (elim disjE conjE exE)
      fix err assume "sent st2 = sent st1"
      with st' new more put have False by (cases new rule: rev_cases) auto
      then show ?thesis ..
    next
      fix req assume s2: "sent st2 = sent st1 @ [req]"
        and r2: "r2 = (case RoundTrip e (length (sent st1)) req of
                   Inl err \<Rightarrow> Some (''request failed: '' @ err)
                 | Inr resp \<Rightarrow>
                     if StatusCode resp \<noteq> 201
                     then Some (''unexpected status code '' @ Itoa (StatusCode resp) @ '': ''
                                 @ RespBody resp)
                     else None)"
      from resp st' s2 have "RoundTrip e (length (sent st1)) req = Inr resp"
        by (simp add: last_response_def)
      with r2 status r show ?thesis by simp
    qed
  qed
qed

lemma push_layers_Exit:
  assumes "push_layers e f c l name imageRef layers st = (Exit msg, st')"
  shows "\<exists>err. \<not> blobExistsError err \<and> msg = ''Error: Failed to upload layer: '' @ err @ [CHR 0x0A]"
  using assms
proof (induction layers arbitrary: st)
  case Nil
  then show ?case by simp
next
  case (Cons layer rest)
  then show ?case
    by (auto simp: Let_def split: if_splits prod.splits option.splits)
qed

text \<open>
  C7: (1) when \<open>UploadBlob\<close> has sent requests, the last of them is the \<open>PUT\<close>, and the
  registry answered it with a status other than 201 and a body that contains
  \<open>BLOB_UPLOAD_INVALID\<close>, \<open>already exists\<close> or \<open>exist blob\<close>, then \<open>UploadBlob\<close>
  returns an error that the test of \<open>pushCmd\<close> accepts. (2, 3) When the upload of the
  config, or of a layer, returns an error, the push goes on with the layers that remain if
  the error text contains one of the three substrings, and otherwise ends with an error
  message, in the state the upload left (nothing more is sent). (4) A push that ends with
  an error in this part does so for an upload error that contains none of the substrings.
\<close>

theorem push_blob_exists_policy:
  "(\<forall>digest src r st' resp m.
       UploadBlob e f c name digest src st = (r, st') \<longrightarrow> length (sent st) < length (sent st') \<longrightarrow>
       Method (last (sent st')) = ''PUT'' \<longrightarrow> last_response e st' resp \<longrightarrow>
       StatusCode resp \<noteq> 201 \<longrightarrow> m \<in> set exists_markers \<longrightarrow> Contains (RespBody resp) m \<longrightarrow>
       (\<exists>err. r = Some err \<and> blobExistsError err))
   \<and> (\<forall>err st1.
       UploadBlob e f c name (l_Digest (Config manifest)) (GetConfigPath l imageRef) st = (Some err, st1) \<longrightarrow>
       push_blobs e f c l name imageRef manifest st =
         (if \<exists>m\<in>set exists_markers. Contains err m
          then push_layers e f c l name imageRef (Layers manifest) st1
          else (Exit (''Error: Failed to upload config: '' @ err @ [CHR 0x0A]), st1)))
   \<and> (\<forall>(layer::Layer) rest err st1.
       12 \<le> length (l_Digest layer) \<longrightarrow>
       UploadBlob e f c name (l_Digest layer) (GetLayerPath l imageRef (l_Digest layer)) st = (Some err, st1) \<longrightarrow>
       push_layers e f c l name imageRef (layer # rest) st =
         (if \<exists>m\<in>set exists_markers. Contains err m
          then push_layers e f c l name imageRef rest st1
          else (Exit (''Error: Failed to upload layer: '' @ err @ [CHR 0x0A]), st1)))
   \<and> (\<forall>msg st'.
       push_blobs e f c l name imageRef manifest st = (Exit msg, st') \<longrightarrow>
       (\<exists>err. \<not> (\<exists>m\<in>set exists_markers. Contains err m)
          \<and> (msg = ''Error: Failed to upload config: '' @ err @ [CHR 0x0A]
               \<or> msg = ''Error: Failed to upload layer: '' @ err @ [CHR 0x0A])))"
proof (intro conjI allI impI)
  fix digest src r st' resp m
  assume a: "UploadBlob e f c name digest src st = (r, st')" "length (sent st) < length (sent st')"
    "Method (last (sent st')) = ''PUT''" "last_response e st' resp" "StatusCode resp \<noteq> 201"
    and m: "m \<in> set exists_markers" "Contains (RespBody resp) m"
  let ?err = "''failed to upload blob: unexpected status code '' @ Itoa (StatusCode resp)
                    @ '': '' @ RespBody resp"
  from UploadBlob_rejected [OF a] have r: "r = Some ?err" .
  have "?err = (''failed to upload blob: unexpected status code '' @ Itoa (StatusCode resp) @ '': '')
      @ RespBody resp" by simp
  then have "Contains ?err m" using Contains_append [OF m(2)] by metis
  with m(1) have "blobExistsError ?err" unfolding blobExistsError_markers by blast
  with r show "\<exists>err. r = Some err \<and> blobExistsError err" by blast
next
  fix err st1
  assume "UploadBlob e f c name (l_Digest (Config manifest)) (GetConfigPath l imageRef) st = (Some err, st1)"
  then show "push_blobs e f c l name imageRef manifest st =
         (if \<exists>m\<in>set exists_markers. Contains err m
          then push_layers e f c l name imageRef (Layers manifest) st1
          else (Exit (''Error: Failed to upload config: '' @ err @ [CHR 0x0A]), st1))"
    by (simp add: push_blobs_def Let_def blobExistsError_markers)
next
  fix layer :: Layer and rest err st1
  assume "12 \<le> length (l_Digest layer)"
    "UploadBlob e f c name (l_Digest layer) (GetLayerPath l imageRef (l_Digest layer)) st = (Some err, st1)"
  then show "push_layers e f c l name imageRef (layer # rest) st =
         (if \<exists>m\<in>set exists_markers. Contains err m
          then push_layers e f c l name imageRef rest st1
          else (Exit (''Error: Failed to upload layer: '' @ err @ [CHR 0x0A]), st1))"
    by (simp add: Let_def blobExistsError_markers)
next
  fix msg st'
  assume ex: "push_blobs e f c l name imageRef manifest st = (Exit msg, st')"
  obtain r st1 where u: "UploadBlob e f c name (l_Digest (Config manifest)) (GetConfigPath l imageRef) st = (r, st1)"
    by fastforce
  have "\<exists>err. \<not> blobExistsError err
          \<and> (msg = ''Error: Failed to upload config: '' @ err @ [CHR 0x0A]
               \<or> msg = ''Error: Failed to upload layer: '' @ err @ [CHR 0x0A])"
  proof (cases "\<exists>err. r = Some err \<and> \<not> blobExistsError err")
    case True
    with ex u show ?thesis by (auto simp: push_blobs_def Let_def)
  next
    case False
    with ex u have "push_layers e f c l name imageRef (Layers manifest) st1 = (Exit msg, st')"
      by (auto simp: push_blobs_def Let_def split: option.splits if_splits)
    from push_layers_Exit [OF this] show ?thesis by blast
  qed
  then show "\<exists>err. \<not> (\<exists>m\<in>set exists_markers. Contains err m)
          \<and> (msg = ''Error: Failed to upload config: '' @ err @ [CHR 0x0A]
               \<or> msg = ''Error: Failed to upload layer: '' @ err @ [CHR 0x0A])"
    unfolding blobExistsError_markers .
qed


lemma UploadBlob_sample:
  "\<exists>r st2. UploadBlob (push_env answer) push_store sample_client ''library/nginx''
        (l_Digest (Config config_only)) (GetConfigPath sample_layout ''nginx:latest'') anonymous = (r, st2)
     \<and> length (sent anonymous) < length (sent st2) \<and> Method (last (sent st2)) = ''PUT''
     \<and> last_response (push_env answer) st2 answer"
proof -
  let ?e = "push_env answer"
  have env: "RoundTrip ?e = scripted [Inr upload_session, Inr answer]"
    and parse: "\<And>s. s \<noteq> [] \<Longrightarrow> url_Parse ?e s = Inr \<lparr>Rest = s, RawQuery = []\<rparr>"
    by (simp_all add: push_env_def sample_env_def)
  have rf: "os_ReadFile push_store (GetConfigPath sample_layout ''nginx:latest'') = Inr ''{}''"
    and nf: "fault push_store ''fstat'' (GetConfigPath sample_layout ''nginx:latest'') = None"
    by (simp_all add: os_ReadFile_def push_store_def GetConfigPath_def GetImageDir_def
        encodeNewEncoding_def sample_layout_def)
  have "\<exists>st1. doRequest ?e sample_client ''POST'' (''/'' @ ''library/nginx'' @ ''/blobs/uploads/'')
        Map.empty anonymous = (Inr upload_session, st1)
        \<and> length (sent st1) = Suc (length (sent anonymous)) \<and> auth st1 = auth anonymous"
  proof (rule doRequest_scripted [OF parse env])
    show "baseURL sample_client @ ''/v2'' @ ''/'' @ ''library/nginx'' @ ''/blobs/uploads/'' \<noteq> []"
      by simp
  qed (simp_all add: anonymous_def upload_session_def)
  then obtain st1 where d: "doRequest ?e sample_client ''POST''
        (''/'' @ ''library/nginx'' @ ''/blobs/uploads/'') Map.empty anonymous = (Inr upload_session, st1)"
    and l1: "length (sent st1) = Suc (length (sent anonymous))"
    by (elim exE conjE)
  from l1 have l1': "length (sent st1) = Suc 0" by (simp add: anonymous_def)
  let ?loc = "''https://registry.example.com/v2/library/nginx/blobs/uploads/7f3a''"
  have sb: "StartBlobUpload ?e sample_client ''library/nginx'' anonymous = (Inr ?loc, st1)"
    using d by (simp add: StartBlobUpload_def Let_def upload_session_def Header_Get_def HasPrefix_def)
  obtain r2 st2 where um: "UploadBlobMonolithic ?e ?loc ''{}'' (int (length ''{}''))
        (l_Digest (Config config_only)) st1 = (r2, st2)" by fastforce
  have "url_Parse ?e ?loc = Inr \<lparr>Rest = ?loc, RawQuery = []\<rparr>" by (rule parse) simp
  from UploadBlobMonolithic_sent [OF _ um] this obtain req where
    s2: "sent st2 = sent st1 @ [req]" and m: "Method req = ''PUT''"
    by (auto simp: NewRequest_def)
  have lr: "last_response ?e st2 answer"
    by (simp add: last_response_def s2 l1' env scripted_def)
  have "UploadBlob ?e push_store sample_client ''library/nginx''
        (l_Digest (Config config_only)) (GetConfigPath sample_layout ''nginx:latest'') anonymous
      = ((case r2 of Some err \<Rightarrow> Some (''failed to upload blob: '' @ err) | None \<Rightarrow> None), st2)"
    using um by (simp add: UploadBlob_def rf nf sb split: option.splits)
  moreover have "length (sent anonymous) < length (sent st2)" by (simp add: s2 anonymous_def)
  moreover have "Method (last (sent st2)) = ''PUT''" by (simp add: s2 m)
  ultimately show ?thesis using lr by blast
qed

theorem push_blob_exists_policy_witness:
  "fst (push_blobs (push_env (rejected 400 ''blob already exists'')) push_store sample_client
          sample_layout ''library/nginx'' ''nginx:latest'' config_only anonymous) = Completed
   \<and> fst (push_blobs (push_env (rejected 500 ''internal error'')) push_store sample_client
          sample_layout ''library/nginx'' ''nginx:latest'' config_only anonymous)
       = Exit (''Error: Failed to upload config: failed to upload blob: unexpected status code 500: internal error'' @ [CHR 0x0A])"
proof -
  let ?a = "rejected 400 ''blob already exists''"
  let ?b = "rejected 500 ''internal error''"
  have mk: "''already exists'' \<in> set exists_markers" by (simp add: exists_markers_def)
  have ca: "Contains (RespBody ?a) ''already exists''" by (simp add: rejected_def Contains_def)
  have sa: "StatusCode ?a \<noteq> 201" and sb: "StatusCode ?b \<noteq> 201" by (simp_all add: rejected_def)
  from UploadBlob_sample [of ?a] obtain r st2 where
    u: "UploadBlob (push_env ?a) push_store sample_client ''library/nginx''
        (l_Digest (Config config_only)) (GetConfigPath sample_layout ''nginx:latest'') anonymous = (r, st2)"
    and f: "length (sent anonymous) < length (sent st2)" "Method (last (sent st2)) = ''PUT''"
      "last_response (push_env ?a) st2 ?a"
    by (elim exE conjE)
  note th = push_blob_exists_policy [of "push_env ?a" push_store sample_client "''library/nginx''"
      anonymous config_only sample_layout "''nginx:latest''"]
  from th [THEN conjunct1, rule_format, OF u f sa mk ca]
  obtain err where r: "r = Some err" and be: "blobExistsError err"
    by (elim exE conjE)
  from be have ex: "\<exists>m\<in>set exists_markers. Contains err m" by (simp add: blobExistsError_markers)
  from th [THEN conjunct2, THEN conjunct1, rule_format, OF u [unfolded r]] ex
  have "push_blobs (push_env ?a) push_store sample_client sample_layout ''library/nginx''
      ''nginx:latest'' config_only anonymous
      = push_layers (push_env ?a) push_store sample_client sample_layout ''library/nginx''
          ''nginx:latest'' (Layers config_only) st2"
    by simp
  then have A: "fst (push_blobs (push_env ?a) push_store sample_client sample_layout ''library/nginx''
      ''nginx:latest'' config_only anonymous) = Completed"
    by (simp add: config_only_def)
  from UploadBlob_sample [of ?b] obtain r' st3 where
    u': "UploadBlob (push_env ?b) push_store sample_client ''library/nginx''
        (l_Digest (Config config_only)) (GetConfigPath sample_layout ''nginx:latest'') anonymous = (r', st3)"
    and f': "length (sent anonymous) < length (sent st3)" "Method (last (sent st3)) = ''PUT''"
      "last_response (push_env ?b) st3 ?b"
    by (elim exE conjE)
  let ?err = "''failed to upload blob: unexpected status code 500: internal error''"
  have it: "Itoa 500 = ''500''" by code_simp
  from UploadBlob_rejected [OF u' f' sb] have r': "r' = Some ?err"
    by (simp add: rejected_def it)
  have nm: "\<not> (\<exists>m\<in>set exists_markers. Contains ?err m)"
    unfolding blobExistsError_markers [symmetric] by code_simp
  note th' = push_blob_exists_policy [of "push_env ?b" push_store sample_client "''library/nginx''"
      anonymous config_only sample_layout "''nginx:latest''"]
  from th' [THEN conjunct2, THEN conjunct1, rule_format, OF u' [unfolded r']] nm
  have "push_blobs (push_env ?b) push_store sample_client sample_layout ''library/nginx''
      ''nginx:latest'' config_only anonymous
      = (Exit (''Error: Failed to upload config: '' @ ?err @ [CHR 0x0A]), st3)"
    by simp
  then have B: "fst (push_blobs (push_env ?b) push_store sample_client sample_layout ''library/nginx''
      ''nginx:latest'' config_only anonymous)
       = Exit (''Error: Failed to upload config: failed to upload blob: unexpected status code 500: internal error'' @ [CHR 0x0A])"
    by simp
  from A B show ?thesis ..
qed

section \<open>C8: resolving a Bearer challenge\<close>









end
